theory Spec2Isabelle
  imports Complex_Main "HOL-Library.Word"
begin

unbundle bit_operations_syntax

section \<open>Universal remotes (broadlink/remote.py)\<close>

text \<open>
  A shallow embedding of \<^verbatim>\<open>src/broadlink/remote.py\<close>. Python \<^verbatim>\<open>bytes\<close> are lists of
  8-bit words, Python integers are \<open>int\<close> (sizes are \<open>nat\<close>), a Python \<^verbatim>\<open>str\<close> is its
  list of code points, and every exception the module can raise is a value of \<open>exn\<close>
  returned on the left of a sum.
\<close>

subsection \<open>Values and exceptions\<close>

type_synonym byte = "8 word"
type_synonym bytes = "byte list"
type_synonym pystr = "nat list"

datatype exn =
    StructError
  | IndexError
  | KeyError
  | UnicodeDecodeError
  | AttributeError
  | TransportError nat
  | DeviceError nat

text \<open>
  \<^verbatim>\<open>Features\<close> is an \<^verbatim>\<open>enum.IntFlag\<close>: its members are the integers below and
  \<^verbatim>\<open>|\<close> is bitwise or.
\<close>

definition LEARN_IR_CODE :: nat where "LEARN_IR_CODE = 1"
definition SEND_IR_CODE :: nat where "SEND_IR_CODE = 2"
definition LEARN_RF_CODE :: nat where "LEARN_RF_CODE = 4"
definition SEND_RF_CODE :: nat where "SEND_RF_CODE = 8"
definition CHECK_TEMPERATURE :: nat where "CHECK_TEMPERATURE = 16"
definition CHECK_HUMIDITY :: nat where "CHECK_HUMIDITY = 32"

text \<open>
  The values the public methods return; a dictionary keeps its items in the order
  written. A Python \<^verbatim>\<open>float\<close> is kept as the rational value of the double (see the
  subsection on floating point below).
\<close>

datatype pyval =
    PNone
  | PBool bool
  | PBytes bytes
  | PFloat rat
  | PStr pystr
  | PFeatures nat
  | PDict "(string \<times> pyval) list"

subsection \<open>The standard library: struct, slices, split, decode\<close>

text \<open>\<open>le_bytes n v\<close>: the \<open>n\<close> low bytes of \<open>v\<close>, least significant first.\<close>

fun le_bytes :: "nat \<Rightarrow> nat \<Rightarrow> bytes" where
  "le_bytes 0 v = []"
| "le_bytes (Suc n) v = of_nat (v mod 256) # le_bytes n (v div 256)"

text \<open>
  \<^verbatim>\<open>struct.pack("<I", c)\<close> and the \<^verbatim>\<open>H\<close> item of \<^verbatim>\<open>struct.pack("<HI", n, c)\<close>: standard
  sizes, no padding, and \<^verbatim>\<open>struct.error\<close> for a number outside the item's range.
\<close>

definition pack_I :: "int \<Rightarrow> exn + bytes" where
  "pack_I c = (if 0 \<le> c \<and> c < 2 ^ 32 then Inr (le_bytes 4 (nat c)) else Inl StructError)"

definition pack_H :: "int \<Rightarrow> exn + bytes" where
  "pack_H n = (if 0 \<le> n \<and> n < 2 ^ 16 then Inr (le_bytes 2 (nat n)) else Inl StructError)"

definition pack_HI :: "int \<Rightarrow> int \<Rightarrow> exn + bytes" where
  "pack_HI n c =
     (case pack_H n of
        Inl e \<Rightarrow> Inl e
      | Inr h \<Rightarrow> (case pack_I c of Inl e \<Rightarrow> Inl e | Inr i \<Rightarrow> Inr (h @ i)))"

text \<open>
  \<^verbatim>\<open>struct.unpack("<H", b)[0]\<close> and \<^verbatim>\<open>struct.unpack("<bb", b)\<close>: the buffer must hold
  exactly two bytes.
\<close>

definition unpack_H :: "bytes \<Rightarrow> exn + nat" where
  "unpack_H b = (case b of [b0, b1] \<Rightarrow> Inr (unat b0 + 256 * unat b1) | _ \<Rightarrow> Inl StructError)"

definition unpack_bb :: "bytes \<Rightarrow> exn + int \<times> int" where
  "unpack_bb b = (case b of [b0, b1] \<Rightarrow> Inr (sint b0, sint b1) | _ \<Rightarrow> Inl StructError)"

text \<open>
  \<^verbatim>\<open>b[i:j]\<close> for indices that are not negative (the only ones the module uses): a
  slice never raises, it is cut at the end of the buffer. \<^verbatim>\<open>b[i:]\<close> is \<open>drop i b\<close>.
\<close>

definition slice :: "nat \<Rightarrow> nat \<Rightarrow> 'a list \<Rightarrow> 'a list" where
  "slice i j b = take (j - i) (drop i b)"

text \<open>\<^verbatim>\<open>b[i]\<close> on bytes: the byte as an integer, \<^verbatim>\<open>IndexError\<close> out of range.\<close>

definition index :: "bytes \<Rightarrow> nat \<Rightarrow> exn + nat" where
  "index b i = (if i < length b then Inr (unat (b ! i)) else Inl IndexError)"

text \<open>\<^verbatim>\<open>b.split(b"\x00")[0]\<close>: the bytes before the first NUL.\<close>

definition split0 :: "bytes \<Rightarrow> bytes" where
  "split0 b = takeWhile (\<lambda>x. x \<noteq> 0) b"

text \<open>
  \<^verbatim>\<open>bytes.decode()\<close>: strict UTF-8. A continuation byte is \<open>0x80..0xBF\<close>; overlong forms,
  surrogates and code points above \<open>0x10FFFF\<close> are errors.
\<close>

definition cont :: "byte \<Rightarrow> bool" where
  "cont b = (0x80 \<le> b \<and> b \<le> 0xBF)"

definition low6 :: "byte \<Rightarrow> nat" where
  "low6 b = unat b mod 64"

fun decode :: "bytes \<Rightarrow> exn + pystr" where
  "decode [] = Inr []"
| "decode (b0 # bs) =
     (if b0 < 0x80 then
        (case decode bs of Inl e \<Rightarrow> Inl e | Inr s \<Rightarrow> Inr (unat b0 # s))
      else if 0xC2 \<le> b0 \<and> b0 \<le> 0xDF then
        (case bs of
           b1 # r \<Rightarrow>
             if cont b1 then
               (case decode r of
                  Inl e \<Rightarrow> Inl e
                | Inr s \<Rightarrow> Inr (((unat b0 mod 32) * 64 + low6 b1) # s))
             else Inl UnicodeDecodeError
         | _ \<Rightarrow> Inl UnicodeDecodeError)
      else if 0xE0 \<le> b0 \<and> b0 \<le> 0xEF then
        (case bs of
           b1 # b2 # r \<Rightarrow>
             if cont b1 \<and> cont b2
                \<and> (if b0 = 0xE0 then 0xA0 \<le> b1 else True)
                \<and> (if b0 = 0xED then b1 \<le> 0x9F else True) then
               (case decode r of
                  Inl e \<Rightarrow> Inl e
                | Inr s \<Rightarrow>
                    Inr ((((unat b0 mod 16) * 64 + low6 b1) * 64 + low6 b2) # s))
             else Inl UnicodeDecodeError
         | _ \<Rightarrow> Inl UnicodeDecodeError)
      else if 0xF0 \<le> b0 \<and> b0 \<le> 0xF4 then
        (case bs of
           b1 # b2 # b3 # r \<Rightarrow>
             if cont b1 \<and> cont b2 \<and> cont b3
                \<and> (if b0 = 0xF0 then 0x90 \<le> b1 else True)
                \<and> (if b0 = 0xF4 then b1 \<le> 0x8F else True) then
               (case decode r of
                  Inl e \<Rightarrow> Inl e
                | Inr s \<Rightarrow>
                    Inr (((((unat b0 mod 8) * 64 + low6 b1) * 64 + low6 b2) * 64
                          + low6 b3) # s))
             else Inl UnicodeDecodeError
         | _ \<Rightarrow> Inl UnicodeDecodeError)
      else Inl UnicodeDecodeError)"

subsection \<open>Floating point\<close>

text \<open>
  A Python \<^verbatim>\<open>float\<close> is an IEEE 754 binary64 number, and \<^verbatim>\<open>/\<close> and \<^verbatim>\<open>+\<close> on floats
  round their exact result to the nearest such number, ties to the even significand.
  A finite double is a rational, and the model keeps a float as that rational.

  \<open>round_even\<close> rounds a rational to the nearest integer, a tie to the even one.
\<close>

definition round_even :: "rat \<Rightarrow> int" where
  "round_even n =
     (let f = \<lfloor>n\<rfloor>; r = n - of_int f
      in if r < 1 / 2 then f
         else if 1 / 2 < r then f + 1
         else if even f then f else f + 1)"

text \<open>
  \<open>binade x\<close> is the exponent \<open>e\<close> with \<open>2\<^sup>e \<le> x < 2\<^sup>e\<^sup>+\<^sup>1\<close>, for a positive \<open>x\<close>: counted
  by halving a number that is at least 2 and by doubling one that is below 1.
\<close>

function binade_up :: "rat \<Rightarrow> int" where
  "binade_up x = (if 2 \<le> x then binade_up (x / 2) + 1 else 0)"
  by pat_completeness auto
termination
proof (relation "measure (\<lambda>x. nat \<lfloor>x\<rfloor>)")
  show "wf (measure (\<lambda>x. nat \<lfloor>x\<rfloor>))" by simp
next
  fix x :: rat
  assume x2: "2 \<le> x"
  have "of_int \<lfloor>x / 2\<rfloor> \<le> x / 2" by (rule of_int_floor_le)
  with x2 have "of_int (\<lfloor>x / 2\<rfloor> + 1) \<le> x" by simp
  then have "\<lfloor>x / 2\<rfloor> + 1 \<le> \<lfloor>x\<rfloor>" by (simp only: le_floor_iff)
  moreover from x2 have "0 < \<lfloor>x\<rfloor>" by (simp add: floor_less_iff less_floor_iff)
  ultimately show "(x / 2, x) \<in> measure (\<lambda>x. nat \<lfloor>x\<rfloor>)" by simp
qed

function binade_down :: "rat \<Rightarrow> int" where
  "binade_down x = (if 0 < x \<and> x < 1 then binade_down (x * 2) - 1 else 0)"
  by pat_completeness auto
termination
proof (relation "measure (\<lambda>x. nat \<lceil>1 / x\<rceil>)")
  show "wf (measure (\<lambda>x. nat \<lceil>1 / x\<rceil>))" by simp
next
  fix x :: rat
  assume "0 < x \<and> x < 1"
  then have x: "0 < x" "x < 1" by simp_all
  define y where "y = 1 / x"
  from x have y1: "1 < y" by (simp add: y_def)
  then have c2: "2 \<le> \<lceil>y\<rceil>" by (simp add: le_ceiling_iff)
  have cy: "y \<le> of_int \<lceil>y\<rceil>" by (rule le_of_int_ceiling)
  from c2 have "(2::rat) \<le> of_int \<lceil>y\<rceil>" by (metis of_int_le_iff of_int_numeral)
  with cy have "y / 2 \<le> of_int \<lceil>y\<rceil> - 1" by linarith
  then have "y / 2 \<le> of_int (\<lceil>y\<rceil> - 1)" by simp
  then have le: "\<lceil>y / 2\<rceil> \<le> \<lceil>y\<rceil> - 1" by (simp only: ceiling_le_iff)
  have eq: "1 / (x * 2) = y / 2" by (simp add: y_def)
  have "\<lceil>1 / (x * 2)\<rceil> = \<lceil>y / 2\<rceil>" by (simp only: eq)
  with le c2 have "nat \<lceil>1 / (x * 2)\<rceil> < nat \<lceil>y\<rceil>" by linarith
  then have "nat \<lceil>1 / (x * 2)\<rceil> < nat \<lceil>1 / x\<rceil>" unfolding y_def .
  then show "(x * 2, x) \<in> measure (\<lambda>x. nat \<lceil>1 / x\<rceil>)"
    unfolding in_measure .
qed

declare binade_up.simps [simp del] binade_down.simps [simp del]

definition binade :: "rat \<Rightarrow> int" where
  "binade x = (if 1 \<le> x then binade_up x else binade_down x)"

text \<open>
  The double nearest to a rational: the significand has 53 bits, so the last place
  has the weight \<open>2\<^sup>e\<^sup>-\<^sup>5\<^sup>2\<close>, and no less than \<open>2\<^sup>-\<^sup>1\<^sup>0\<^sup>7\<^sup>4\<close>, the weight of the last
  place of a subnormal. The overflow to infinity of a magnitude of \<open>2\<^sup>1\<^sup>0\<^sup>2\<^sup>4\<close> and more is
  left out: the floats of \<^verbatim>\<open>remote.py\<close> are computed from single bytes and stay below
  \<open>2\<^sup>9\<close>. For the same reason no NaN and no infinity arises, and no negative zero: a
  quotient \<open>b / 10.0\<close> or \<open>b / 100.0\<close> of a byte is zero only for \<open>b = 0\<close>, where it is
  \<open>+0.0\<close>, and the sum of an integer and a float that cancel is \<open>+0.0\<close>.
\<close>

definition round_double :: "rat \<Rightarrow> rat" where
  "round_double x =
     (if x = 0 then 0
      else
        let k = max (binade \<bar>x\<bar> - 52) (- 1074);
            m = round_even (\<bar>x\<bar> / 2 powi k)
        in sgn x * of_int m * 2 powi k)"

text \<open>
  \<^verbatim>\<open>x / y\<close> and \<^verbatim>\<open>x + y\<close> on two floats (an \<^verbatim>\<open>int\<close> operand is converted first, which is
  exact for the integers of a byte; \<open>y\<close> is the constant 10.0 or 100.0, never zero).
\<close>

definition float_div :: "rat \<Rightarrow> rat \<Rightarrow> rat" where
  "float_div x y = round_double (x / y)"

definition float_add :: "rat \<Rightarrow> rat \<Rightarrow> rat" where
  "float_add x y = round_double (x + y)"

subsection \<open>Sequencing\<close>

text \<open>
  An exception ends the evaluation of an expression: \<open>bind_exn\<close> passes a value on and
  an exception through. \<open>then_pure\<close> does the same for the rest of a method body after
  its one call that reaches the device.
\<close>

definition bind_exn :: "exn + 'a \<Rightarrow> ('a \<Rightarrow> exn + 'b) \<Rightarrow> exn + 'b" where
  "bind_exn m f = (case m of Inl e \<Rightarrow> Inl e | Inr x \<Rightarrow> f x)"

definition then_pure :: "(exn + 'a) \<times> 's \<Rightarrow> ('a \<Rightarrow> exn + 'b) \<Rightarrow> (exn + 'b) \<times> 's" where
  "then_pure r f = (bind_exn (fst r) f, snd r)"

text \<open>\<^verbatim>\<open>d[k]\<close> on a dictionary.\<close>

definition getitem :: "(string \<times> pyval) list \<Rightarrow> string \<Rightarrow> exn + pyval" where
  "getitem d k = (case map_of d k of None \<Rightarrow> Inl KeyError | Some v \<Rightarrow> Inr v)"

subsection \<open>The device\<close>

text \<open>
  \<^verbatim>\<open>device.send_packet\<close>, \<^verbatim>\<open>device.decrypt\<close> and \<^verbatim>\<open>exceptions.check_error\<close> are imported
  from modules that are not part of \<^verbatim>\<open>remote.py\<close>: they are parameters of the model.
  Each may raise. \<open>sent\<close> records every call of \<^verbatim>\<open>send_packet\<close>, the packet type with
  the packet, in order.
\<close>

record device =
  send_packet :: "nat \<Rightarrow> bytes \<Rightarrow> exn + bytes"
  check_error :: "bytes \<Rightarrow> exn option"
  decrypt :: "bytes \<Rightarrow> exn + bytes"
  sent :: "(nat \<times> bytes) list"

text \<open>
  The three lines both \<^verbatim>\<open>_send\<close> methods share, once the packet is built:
  \<^verbatim>\<open>resp = self.send_packet(0x6A, packet); check_error(resp[0x22:0x24]);
  payload = self.decrypt(resp[0x38:])\<close>.
\<close>

definition exchange :: "device \<Rightarrow> bytes \<Rightarrow> (exn + bytes) \<times> device" where
  "exchange self packet =
     (bind_exn (send_packet self 0x6A packet) (\<lambda>resp.
        case check_error self (slice 0x22 0x24 resp) of
          Some e \<Rightarrow> Inl e
        | None \<Rightarrow> decrypt self (drop 0x38 resp)),
      self\<lparr>sent := sent self @ [(0x6A, packet)]\<rparr>)"

text \<open>\<^verbatim>\<open>rmmini._send\<close> (lines 25-31).\<close>

definition rmmini_send :: "device \<Rightarrow> int \<Rightarrow> bytes \<Rightarrow> (exn + bytes) \<times> device" where
  "rmmini_send self command data =
     (case pack_I command of
        Inl e \<Rightarrow> (Inl e, self)
      | Inr hdr \<Rightarrow>
          then_pure (exchange self (hdr @ data)) (\<lambda>payload. Inr (drop 0x4 payload)))"

text \<open>\<^verbatim>\<open>rmminib._send\<close> (lines 118-125).\<close>

definition rmminib_send :: "device \<Rightarrow> int \<Rightarrow> bytes \<Rightarrow> (exn + bytes) \<times> device" where
  "rmminib_send self command data =
     (case pack_HI (int (length data) + 4) command of
        Inl e \<Rightarrow> (Inl e, self)
      | Inr hdr \<Rightarrow>
          then_pure (exchange self (hdr @ data)) (\<lambda>payload.
            bind_exn (unpack_H (take 0x2 payload)) (\<lambda>p_len.
              Inr (slice 0x6 (p_len + 2) payload))))"

subsection \<open>The class hierarchy\<close>

text \<open>
  The seven classes of the module, the base classes each class statement lists (the
  imported class \<^verbatim>\<open>device\<close> is left out: its methods are the parameters above) and the
  attributes each class body defines.
\<close>

datatype variant = rmmini | rmpro | rmminib | rm4mini | rm4pro | rm | rm4

fun bases :: "variant \<Rightarrow> variant list" where
  "bases rmmini = []"
| "bases rmpro = [rmmini]"
| "bases rmminib = [rmmini]"
| "bases rm4mini = [rmminib]"
| "bases rm4pro = [rm4mini, rmpro]"
| "bases rm = [rmpro]"
| "bases rm4 = [rm4pro]"

fun TYPE_of :: "variant \<Rightarrow> string" where
  "TYPE_of rmmini = ''RMMINI''"
| "TYPE_of rmpro = ''RMPRO''"
| "TYPE_of rmminib = ''RMMINIB''"
| "TYPE_of rm4mini = ''RM4MINI''"
| "TYPE_of rm4pro = ''RM4PRO''"
| "TYPE_of rm = ''RM2''"
| "TYPE_of rm4 = ''RM4''"

datatype attr =
    A_send
  | A_fetch_data
  | A_send_data
  | A_enter_learning
  | A_check_data
  | A_supported_features
  | A_sweep_frequency
  | A_check_frequency
  | A_find_rf_packet
  | A_cancel_sweep_frequency
  | A_check_sensors
  | A_check_temperature
  | A_check_humidity

fun class_body :: "variant \<Rightarrow> attr list" where
  "class_body rmmini =
     [A_send, A_fetch_data, A_send_data, A_enter_learning, A_check_data,
      A_supported_features]"
| "class_body rmpro =
     [A_fetch_data, A_sweep_frequency, A_check_frequency, A_find_rf_packet,
      A_cancel_sweep_frequency, A_check_sensors, A_check_temperature,
      A_supported_features]"
| "class_body rmminib = [A_send]"
| "class_body rm4mini =
     [A_check_sensors, A_check_temperature, A_check_humidity, A_supported_features]"
| "class_body rm4pro = [A_supported_features]"
| "class_body rm = []"
| "class_body rm4 = []"

text \<open>
  Python's method resolution order is the C3 linearisation: the class, then the merge
  of its bases' linearisations and the list of its bases. A merge step takes the first
  head that is in no tail and removes it from every list it heads; when no head
  qualifies the class statement raises \<^verbatim>\<open>TypeError\<close> (\<open>None\<close>).
\<close>

definition c3_head :: "'a list list \<Rightarrow> 'a option" where
  "c3_head ls = find (\<lambda>h. list_all (\<lambda>l. h \<notin> set (tl l)) ls) (map hd ls)"

definition c3_drop :: "'a \<Rightarrow> 'a list list \<Rightarrow> 'a list list" where
  "c3_drop h ls = map (\<lambda>l. if hd l = h then tl l else l) ls"

lemma c3_drop_le: "sum_list (map length (c3_drop h ls)) \<le> sum_list (map length ls)"
  by (induction ls) (auto simp: c3_drop_def)

lemma c3_drop_less:
  "l \<in> set ls \<Longrightarrow> l \<noteq> [] \<Longrightarrow> hd l = h \<Longrightarrow>
   sum_list (map length (c3_drop h ls)) < sum_list (map length ls)"
proof (induction ls)
  case Nil
  then show ?case by simp
next
  case (Cons a ls)
  have le: "sum_list (map length (c3_drop h ls)) \<le> sum_list (map length ls)"
    by (rule c3_drop_le)
  show ?case
  proof (cases "a = l")
    case True
    with Cons.prems le show ?thesis by (cases a) (auto simp: c3_drop_def)
  next
    case False
    with Cons have "sum_list (map length (c3_drop h ls)) < sum_list (map length ls)" by simp
    then show ?thesis by (auto simp: c3_drop_def)
  qed
qed

lemma c3_head_Some:
  assumes "c3_head ls = Some h"
  shows "\<exists>l \<in> set ls. hd l = h"
proof -
  from assms obtain i where "i < length ls" and "h = hd (ls ! i)"
    by (auto simp: c3_head_def find_Some_iff)
  then show ?thesis using nth_mem by blast
qed

lemma filter_sum_le: "sum_list (map length (filter P ls)) \<le> sum_list (map length ls)"
  by (induction ls) auto

function c3_merge :: "'a list list \<Rightarrow> 'a list option" where
  "c3_merge ls =
     (let ne = filter (\<lambda>l. l \<noteq> []) ls in
      if ne = [] then Some []
      else
        (case c3_head ne of
           None \<Rightarrow> None
         | Some h \<Rightarrow>
             (case c3_merge (c3_drop h ne) of None \<Rightarrow> None | Some r \<Rightarrow> Some (h # r))))"
  by pat_completeness auto
termination
proof (relation "measure (\<lambda>ls. sum_list (map length ls))")
  show "wf (measure (\<lambda>ls. sum_list (map length ls)))" by simp
next
  fix ls :: "'a list list" and x h
  assume x: "x = filter (\<lambda>l. l \<noteq> []) ls" and "x \<noteq> []" and h: "c3_head x = Some h"
  from c3_head_Some [OF h] obtain l where l: "l \<in> set x" "hd l = h" by blast
  with x have "l \<noteq> []" by auto
  with l have "sum_list (map length (c3_drop h x)) < sum_list (map length x)"
    by (rule_tac c3_drop_less) auto
  also have "\<dots> \<le> sum_list (map length ls)" unfolding x by (rule filter_sum_le)
  finally show "(c3_drop h x, ls) \<in> measure (\<lambda>ls. sum_list (map length ls))" by simp
qed

declare c3_merge.simps [simp del]

function mro :: "variant \<Rightarrow> variant list option" where
  "mro c =
     (case those (map mro (bases c)) of
        None \<Rightarrow> None
      | Some ls \<Rightarrow>
          (case c3_merge (ls @ [bases c]) of None \<Rightarrow> None | Some r \<Rightarrow> Some (c # r)))"
  by pat_completeness auto
termination
  by (relation "measure (\<lambda>c. case c of rmmini \<Rightarrow> 0 | rmpro \<Rightarrow> 1 | rmminib \<Rightarrow> 1
        | rm4mini \<Rightarrow> 2 | rm4pro \<Rightarrow> 3 | rm \<Rightarrow> 2 | rm4 \<Rightarrow> (4::nat))")
     (auto split: variant.splits)

declare mro.simps [simp del]


text \<open>
  Attribute lookup on an instance of class \<open>c\<close>: the first class of the resolution
  order whose body defines the attribute.
\<close>

definition resolve :: "variant \<Rightarrow> attr \<Rightarrow> variant option" where
  "resolve c a =
     (case mro c of None \<Rightarrow> None | Some l \<Rightarrow> find (\<lambda>k. a \<in> set (class_body k)) l)"

subsection \<open>The methods\<close>

text \<open>
  A method takes the class of the instance it runs on (\<open>cls\<close>) beside the device
  state (\<open>self\<close>): \<^verbatim>\<open>self._send\<close> and \<^verbatim>\<open>self.check_sensors\<close> are looked up on that class,
  not on the class that defines the calling method.
\<close>

definition call_send :: "variant \<Rightarrow> device \<Rightarrow> int \<Rightarrow> bytes \<Rightarrow> (exn + bytes) \<times> device" where
  "call_send cls self command data =
     (case resolve cls A_send of
        Some rmmini \<Rightarrow> rmmini_send self command data
      | Some rmminib \<Rightarrow> rmminib_send self command data
      | _ \<Rightarrow> (Inl AttributeError, self))"

text \<open>\<^verbatim>\<open>rmmini\<close> (lines 33-57).\<close>

definition rmmini_fetch_data ::
  "variant \<Rightarrow> device \<Rightarrow> (exn + (string \<times> pyval) list) \<times> device" where
  "rmmini_fetch_data cls self =
     then_pure (call_send cls self 0x1 []) (\<lambda>resp.
       bind_exn (decode (split0 (drop 0x48 resp))) (\<lambda>name.
         bind_exn (index resp 0x87) (\<lambda>locked.
           Inr [(''name'', PStr name), (''is_locked'', PBool (locked \<noteq> 0))])))"

definition rmmini_send_data :: "variant \<Rightarrow> device \<Rightarrow> bytes \<Rightarrow> (exn + unit) \<times> device" where
  "rmmini_send_data cls self data = then_pure (call_send cls self 0x2 data) (\<lambda>_. Inr ())"

definition rmmini_enter_learning :: "variant \<Rightarrow> device \<Rightarrow> (exn + unit) \<times> device" where
  "rmmini_enter_learning cls self = then_pure (call_send cls self 0x3 []) (\<lambda>_. Inr ())"

definition rmmini_check_data :: "variant \<Rightarrow> device \<Rightarrow> (exn + bytes) \<times> device" where
  "rmmini_check_data cls self = call_send cls self 0x4 []"

definition rmmini_supported_features :: nat where
  "rmmini_supported_features = LEARN_IR_CODE OR SEND_IR_CODE"

text \<open>\<^verbatim>\<open>rmpro\<close> (lines 65-110).\<close>

definition rmpro_fetch_data ::
  "variant \<Rightarrow> device \<Rightarrow> (exn + (string \<times> pyval) list) \<times> device" where
  "rmpro_fetch_data cls self =
     then_pure (call_send cls self 0x1 []) (\<lambda>resp.
       bind_exn (unpack_bb (take 0x2 resp)) (\<lambda>temperature.
         bind_exn (decode (split0 (drop 0x48 resp))) (\<lambda>name.
           bind_exn (index resp 0x87) (\<lambda>locked.
             Inr [(''temperature'',
                   PFloat (float_add (of_int (fst temperature))
                     (float_div (of_int (snd temperature)) 10))),
                  (''name'', PStr name),
                  (''is_locked'', PBool (locked \<noteq> 0))]))))"

definition rmpro_sweep_frequency :: "variant \<Rightarrow> device \<Rightarrow> (exn + unit) \<times> device" where
  "rmpro_sweep_frequency cls self = then_pure (call_send cls self 0x19 []) (\<lambda>_. Inr ())"

definition rmpro_check_frequency :: "variant \<Rightarrow> device \<Rightarrow> (exn + bool) \<times> device" where
  "rmpro_check_frequency cls self =
     then_pure (call_send cls self 0x1A []) (\<lambda>resp.
       bind_exn (index resp 0) (\<lambda>b. Inr (b = 1)))"

definition rmpro_find_rf_packet :: "variant \<Rightarrow> device \<Rightarrow> (exn + unit) \<times> device" where
  "rmpro_find_rf_packet cls self = then_pure (call_send cls self 0x1B []) (\<lambda>_. Inr ())"

definition rmpro_cancel_sweep_frequency ::
  "variant \<Rightarrow> device \<Rightarrow> (exn + unit) \<times> device" where
  "rmpro_cancel_sweep_frequency cls self =
     then_pure (call_send cls self 0x1E []) (\<lambda>_. Inr ())"

definition rmpro_check_sensors ::
  "variant \<Rightarrow> device \<Rightarrow> (exn + (string \<times> pyval) list) \<times> device" where
  "rmpro_check_sensors cls self =
     then_pure (call_send cls self 0x1 []) (\<lambda>resp.
       bind_exn (unpack_bb (take 0x2 resp)) (\<lambda>temperature.
         Inr [(''temperature'',
               PFloat (float_add (of_int (fst temperature))
                     (float_div (of_int (snd temperature)) 10)))]))"

definition rmpro_supported_features :: nat where
  "rmpro_supported_features =
     LEARN_IR_CODE OR SEND_IR_CODE OR LEARN_RF_CODE OR SEND_RF_CODE OR CHECK_TEMPERATURE"

text \<open>\<^verbatim>\<open>rm4mini\<close> (lines 133-157).\<close>

definition rm4mini_check_sensors ::
  "variant \<Rightarrow> device \<Rightarrow> (exn + (string \<times> pyval) list) \<times> device" where
  "rm4mini_check_sensors cls self =
     then_pure (call_send cls self 0x24 []) (\<lambda>resp.
       bind_exn (unpack_bb (take 0x2 resp)) (\<lambda>temperature.
         bind_exn (index resp 0x2) (\<lambda>h0.
           bind_exn (index resp 0x3) (\<lambda>h1.
             Inr [(''temperature'',
                   PFloat (float_add (of_int (fst temperature))
                     (float_div (of_int (snd temperature)) 100))),
                  (''humidity'', PFloat (float_add (of_nat h0) (float_div (of_nat h1) 100)))]))))"

definition rm4mini_supported_features :: nat where
  "rm4mini_supported_features =
     LEARN_IR_CODE OR SEND_IR_CODE OR CHECK_TEMPERATURE OR CHECK_HUMIDITY"

text \<open>\<^verbatim>\<open>rm4pro\<close> (lines 165-173).\<close>

definition rm4pro_supported_features :: nat where
  "rm4pro_supported_features =
     LEARN_IR_CODE OR SEND_IR_CODE OR LEARN_RF_CODE OR SEND_RF_CODE
       OR CHECK_TEMPERATURE OR CHECK_HUMIDITY"

text \<open>
  \<^verbatim>\<open>self.check_sensors()\<close>, as \<^verbatim>\<open>check_temperature\<close> and \<^verbatim>\<open>check_humidity\<close> call it, and
  these two methods (lines 98-100, 142-148).
\<close>

definition call_check_sensors ::
  "variant \<Rightarrow> device \<Rightarrow> (exn + (string \<times> pyval) list) \<times> device" where
  "call_check_sensors cls self =
     (case resolve cls A_check_sensors of
        Some rmpro \<Rightarrow> rmpro_check_sensors cls self
      | Some rm4mini \<Rightarrow> rm4mini_check_sensors cls self
      | _ \<Rightarrow> (Inl AttributeError, self))"

definition rmpro_check_temperature :: "variant \<Rightarrow> device \<Rightarrow> (exn + pyval) \<times> device" where
  "rmpro_check_temperature cls self =
     then_pure (call_check_sensors cls self) (\<lambda>d. getitem d ''temperature'')"

definition rm4mini_check_temperature :: "variant \<Rightarrow> device \<Rightarrow> (exn + pyval) \<times> device" where
  "rm4mini_check_temperature cls self =
     then_pure (call_check_sensors cls self) (\<lambda>d. getitem d ''temperature'')"

definition rm4mini_check_humidity :: "variant \<Rightarrow> device \<Rightarrow> (exn + pyval) \<times> device" where
  "rm4mini_check_humidity cls self =
     then_pure (call_check_sensors cls self) (\<lambda>d. getitem d ''humidity'')"

subsection \<open>Calling a public method\<close>

datatype call =
    Fetch_data
  | Send_data bytes
  | Enter_learning
  | Check_data
  | Supported_features
  | Sweep_frequency
  | Check_frequency
  | Find_rf_packet
  | Cancel_sweep_frequency
  | Check_sensors
  | Check_temperature
  | Check_humidity

fun attr_of :: "call \<Rightarrow> attr" where
  "attr_of Fetch_data = A_fetch_data"
| "attr_of (Send_data d) = A_send_data"
| "attr_of Enter_learning = A_enter_learning"
| "attr_of Check_data = A_check_data"
| "attr_of Supported_features = A_supported_features"
| "attr_of Sweep_frequency = A_sweep_frequency"
| "attr_of Check_frequency = A_check_frequency"
| "attr_of Find_rf_packet = A_find_rf_packet"
| "attr_of Cancel_sweep_frequency = A_cancel_sweep_frequency"
| "attr_of Check_sensors = A_check_sensors"
| "attr_of Check_temperature = A_check_temperature"
| "attr_of Check_humidity = A_check_humidity"

definition returning ::
  "('a \<Rightarrow> pyval) \<Rightarrow> (exn + 'a) \<times> device \<Rightarrow> ((exn + pyval) \<times> device) option" where
  "returning w r = Some (then_pure r (\<lambda>x. Inr (w x)))"

text \<open>
  \<open>class_method k c cls self\<close>: the body that class \<open>k\<close> gives the called method, run on an
  instance of \<open>cls\<close>; \<open>None\<close> when the body of \<open>k\<close> does not define it.
\<close>

fun class_method :: "variant \<Rightarrow> call \<Rightarrow> variant \<Rightarrow> device \<Rightarrow> ((exn + pyval) \<times> device) option" where
  "class_method rmmini c cls self =
     (case c of
        Fetch_data \<Rightarrow> returning PDict (rmmini_fetch_data cls self)
      | Send_data d \<Rightarrow> returning (\<lambda>_. PNone) (rmmini_send_data cls self d)
      | Enter_learning \<Rightarrow> returning (\<lambda>_. PNone) (rmmini_enter_learning cls self)
      | Check_data \<Rightarrow> returning PBytes (rmmini_check_data cls self)
      | Supported_features \<Rightarrow> Some (Inr (PFeatures rmmini_supported_features), self)
      | _ \<Rightarrow> None)"
| "class_method rmpro c cls self =
     (case c of
        Fetch_data \<Rightarrow> returning PDict (rmpro_fetch_data cls self)
      | Sweep_frequency \<Rightarrow> returning (\<lambda>_. PNone) (rmpro_sweep_frequency cls self)
      | Check_frequency \<Rightarrow> returning PBool (rmpro_check_frequency cls self)
      | Find_rf_packet \<Rightarrow> returning (\<lambda>_. PNone) (rmpro_find_rf_packet cls self)
      | Cancel_sweep_frequency \<Rightarrow>
          returning (\<lambda>_. PNone) (rmpro_cancel_sweep_frequency cls self)
      | Check_sensors \<Rightarrow> returning PDict (rmpro_check_sensors cls self)
      | Check_temperature \<Rightarrow> returning id (rmpro_check_temperature cls self)
      | Supported_features \<Rightarrow> Some (Inr (PFeatures rmpro_supported_features), self)
      | _ \<Rightarrow> None)"
| "class_method rmminib c cls self = None"
| "class_method rm4mini c cls self =
     (case c of
        Check_sensors \<Rightarrow> returning PDict (rm4mini_check_sensors cls self)
      | Check_temperature \<Rightarrow> returning id (rm4mini_check_temperature cls self)
      | Check_humidity \<Rightarrow> returning id (rm4mini_check_humidity cls self)
      | Supported_features \<Rightarrow> Some (Inr (PFeatures rm4mini_supported_features), self)
      | _ \<Rightarrow> None)"
| "class_method rm4pro c cls self =
     (case c of
        Supported_features \<Rightarrow> Some (Inr (PFeatures rm4pro_supported_features), self)
      | _ \<Rightarrow> None)"
| "class_method rm c cls self = None"
| "class_method rm4 c cls self = None"

text \<open>
  \<^verbatim>\<open>obj.m(...)\<close> for an instance \<open>obj\<close> of class \<open>cls\<close>: Python raises
  \<^verbatim>\<open>AttributeError\<close> when no class of the resolution order defines \<open>m\<close>.
\<close>

definition invoke :: "variant \<Rightarrow> call \<Rightarrow> device \<Rightarrow> (exn + pyval) \<times> device" where
  "invoke cls c self =
     (case resolve cls (attr_of c) of
        None \<Rightarrow> (Inl AttributeError, self)
      | Some k \<Rightarrow>
          (case class_method k c cls self of
             None \<Rightarrow> (Inl AttributeError, self)
           | Some r \<Rightarrow> r))"

subsection \<open>A device for the examples\<close>

text \<open>
  Whatever packet it is handed, the transport of \<open>test_device payload\<close> answers with a
  response of 0x38 header bytes followed by \<open>payload\<close>; no error is reported and the
  cipher is the identity, so \<open>payload\<close> is the decrypted buffer.
\<close>

definition test_device :: "bytes \<Rightarrow> device" where
  "test_device payload =
     \<lparr>send_packet = (\<lambda>t p. Inr (replicate 0x38 0 @ payload)),
      check_error = (\<lambda>e. None),
      decrypt = Inr,
      sent = []\<rparr>"

subsection \<open>Little-endian fields, for the statements\<close>

text \<open>
  The wire format in the specification's words: \<open>u32_le w\<close> is a 32-bit value as four
  bytes, least significant first; \<open>u16_le n\<close> is a 16-bit value as two bytes, least
  significant first; \<open>u16_at0 b\<close> is the 16-bit little-endian value at offsets 0 and 1
  of a buffer.
\<close>

definition u32_le :: "32 word \<Rightarrow> bytes" where
  "u32_le w = [ucast w, ucast (drop_bit 8 w), ucast (drop_bit 16 w), ucast (drop_bit 24 w)]"

definition u16_le :: "nat \<Rightarrow> bytes" where
  "u16_le n = [of_nat (n mod 256), of_nat (n div 256 mod 256)]"

definition u16_at0 :: "bytes \<Rightarrow> nat" where
  "u16_at0 b = unat (b ! 0) + 256 * unat (b ! 1)"

subsection \<open>Strings and two response buffers, for the examples\<close>

text \<open>
  \<open>ascii s\<close> is the bytes of an ASCII literal and \<open>code_points s\<close> the Python string
  with the same characters.
\<close>

definition ascii :: "string \<Rightarrow> bytes" where
  "ascii s = map of_char s"

definition code_points :: "string \<Rightarrow> pystr" where
  "code_points s = map of_char s"

text \<open>
  A decrypted buffer of 144 bytes, zero except for the letters \<open>A\<close>, \<open>B\<close>, \<open>C\<close> at
  offsets 0x44, 0x48, 0x4C and the byte 1 at offsets 0x83 and 0x87.
\<close>

definition offsets_example :: bytes where
  "offsets_example =
     replicate 0x44 0 @ [0x41] @ replicate 3 0 @ [0x42] @ replicate 3 0 @ [0x43]
       @ replicate 0x36 0 @ [0x01] @ replicate 3 0 @ [0x01] @ replicate 8 0"

text \<open>
  A decrypted buffer of 140 bytes whose offsets 0x4C onwards hold \<open>Living Room\<close>, three
  NUL bytes and then \<open>junk\<close>.
\<close>

definition living_room_example :: bytes where
  "living_room_example =
     replicate 0x4C 0 @ ascii ''Living Room'' @ [0x00, 0x00, 0x00] @ ascii ''junk''
       @ replicate 0x2E 0"

subsection \<open>The members of a flag value\<close>

text \<open>
  \<open>flags_in ft\<close> lists the members of \<^verbatim>\<open>Features\<close> that the value \<open>ft\<close> contains
  (\<^verbatim>\<open>flag in ft\<close>, that is \<^verbatim>\<open>ft & flag != 0\<close>), in the order of the enumeration.
\<close>

definition flags_in :: "nat \<Rightarrow> nat list" where
  "flags_in ft =
     filter (\<lambda>f. ft AND f \<noteq> 0)
       [LEARN_IR_CODE, SEND_IR_CODE, LEARN_RF_CODE, SEND_RF_CODE, CHECK_TEMPERATURE,
        CHECK_HUMIDITY]"

subsection \<open>The operation table and the flag of an operation\<close>

text \<open>
  The specification's table of operations: \<open>request_of cls c\<close> is the opcode and the
  payload that the operation \<open>c\<close> is to send on class \<open>cls\<close> (\<^verbatim>\<open>check_sensors\<close>, and with
  it \<^verbatim>\<open>check_temperature\<close> and \<^verbatim>\<open>check_humidity\<close>, which call it: 0x01 on generation A, 0x24
  on generation B); \<^verbatim>\<open>supported_features\<close> sends nothing. \<open>framed cls opcode payload\<close> is
  the frame in the wire format of the class: legacy for \<^verbatim>\<open>rmmini\<close>, \<^verbatim>\<open>rmpro\<close> and \<^verbatim>\<open>rm\<close>,
  extended for the others.
\<close>

fun request_of :: "variant \<Rightarrow> call \<Rightarrow> (32 word \<times> bytes) option" where
  "request_of cls Fetch_data = Some (0x01, [])"
| "request_of cls (Send_data code) = Some (0x02, code)"
| "request_of cls Enter_learning = Some (0x03, [])"
| "request_of cls Check_data = Some (0x04, [])"
| "request_of cls Sweep_frequency = Some (0x19, [])"
| "request_of cls Check_frequency = Some (0x1A, [])"
| "request_of cls Find_rf_packet = Some (0x1B, [])"
| "request_of cls Cancel_sweep_frequency = Some (0x1E, [])"
| "request_of cls Check_sensors = Some (if cls \<in> {rmpro, rm} then 0x01 else 0x24, [])"
| "request_of cls Check_temperature = Some (if cls \<in> {rmpro, rm} then 0x01 else 0x24, [])"
| "request_of cls Check_humidity = Some (if cls \<in> {rmpro, rm} then 0x01 else 0x24, [])"
| "request_of cls Supported_features = None"

definition framed :: "variant \<Rightarrow> 32 word \<Rightarrow> bytes \<Rightarrow> bytes" where
  "framed cls opcode payload =
     (if cls \<in> {rmmini, rmpro, rm} then u32_le opcode @ payload
      else u16_le (length payload + 4) @ u32_le opcode @ payload)"

text \<open>
  The flag that names an operation in \<^verbatim>\<open>Features\<close>, where one flag does:
  \<^verbatim>\<open>enter_learning\<close> is infrared learning; the sweep, \<^verbatim>\<open>check_frequency\<close> and
  \<^verbatim>\<open>find_rf_packet\<close> are radio-frequency learning; the sensor methods read the temperature
  or the humidity. \<^verbatim>\<open>send_data\<close> and \<^verbatim>\<open>check_data\<close> serve infrared and radio-frequency codes
  alike, and \<^verbatim>\<open>fetch_data\<close> and \<^verbatim>\<open>supported_features\<close> have no flag.
\<close>

fun flag_of :: "call \<Rightarrow> nat option" where
  "flag_of Enter_learning = Some LEARN_IR_CODE"
| "flag_of Sweep_frequency = Some LEARN_RF_CODE"
| "flag_of Check_frequency = Some LEARN_RF_CODE"
| "flag_of Find_rf_packet = Some LEARN_RF_CODE"
| "flag_of Cancel_sweep_frequency = Some LEARN_RF_CODE"
| "flag_of Check_sensors = Some CHECK_TEMPERATURE"
| "flag_of Check_temperature = Some CHECK_TEMPERATURE"
| "flag_of Check_humidity = Some CHECK_HUMIDITY"
| "flag_of Fetch_data = None"
| "flag_of (Send_data code) = None"
| "flag_of Check_data = None"
| "flag_of Supported_features = None"

section \<open>Properties\<close>

subsection \<open>Method resolution, packing and the two \<^verbatim>\<open>_send\<close> methods\<close>

lemma mro_rmmini: "mro rmmini = Some [rmmini]" by code_simp
lemma mro_rmpro: "mro rmpro = Some [rmpro, rmmini]" by code_simp
lemma mro_rmminib: "mro rmminib = Some [rmminib, rmmini]" by code_simp
lemma mro_rm4mini: "mro rm4mini = Some [rm4mini, rmminib, rmmini]" by code_simp
lemma mro_rm4pro: "mro rm4pro = Some [rm4pro, rm4mini, rmminib, rmpro, rmmini]" by code_simp
lemma mro_rm: "mro rm = Some [rm, rmpro, rmmini]" by code_simp
lemma mro_rm4: "mro rm4 = Some [rm4, rm4pro, rm4mini, rmminib, rmpro, rmmini]" by code_simp

lemmas mro_table = mro_rmmini mro_rmpro mro_rmminib mro_rm4mini mro_rm4pro mro_rm mro_rm4

lemma resolve_send:
  "resolve rmmini A_send = Some rmmini"
  "resolve rmpro A_send = Some rmmini"
  "resolve rmminib A_send = Some rmminib"
  "resolve rm4mini A_send = Some rmminib"
  "resolve rm4pro A_send = Some rmminib"
  "resolve rm A_send = Some rmmini"
  "resolve rm4 A_send = Some rmminib"
  by (simp_all add: resolve_def mro_table)

lemma call_send_table:
  "call_send rmmini = rmmini_send"
  "call_send rmpro = rmmini_send"
  "call_send rmminib = rmminib_send"
  "call_send rm4mini = rmminib_send"
  "call_send rm4pro = rmminib_send"
  "call_send rm = rmmini_send"
  "call_send rm4 = rmminib_send"
  by (simp_all add: call_send_def resolve_send fun_eq_iff)

lemma le_bytes_2: "le_bytes 2 v = [of_nat (v mod 256), of_nat (v div 256 mod 256)]"
proof -
  have "le_bytes (Suc (Suc 0)) v = [of_nat (v mod 256), of_nat (v div 256 mod 256)]"
    by simp
  then show ?thesis by (simp only: numeral_2_eq_2)
qed

lemma le_bytes_4:
  "le_bytes 4 v =
     [of_nat (v mod 256), of_nat (v div 256 mod 256), of_nat (v div 65536 mod 256),
      of_nat (v div 16777216 mod 256)]"
proof -
  have "le_bytes (Suc (Suc (Suc (Suc 0)))) v =
     [of_nat (v mod 256), of_nat (v div 256 mod 256), of_nat (v div 65536 mod 256),
      of_nat (v div 16777216 mod 256)]"
    by (simp flip: div_mult2_eq)
  moreover have "(4::nat) = Suc (Suc (Suc (Suc 0)))" by simp
  ultimately show ?thesis by (simp only:)
qed

lemma byte_of_word:
  "(of_nat (unat (w::32 word) div 2 ^ k mod 256) :: 8 word) = ucast (drop_bit k w)"
proof -
  have "unat (drop_bit k w) = drop_bit k (unat w)"
    by (rule unat_drop_bit_eq)
  also have "\<dots> = unat w div 2 ^ k"
    by (rule drop_bit_eq_div)
  finally have "unat (drop_bit k w) = unat w div 2 ^ k" .
  then show ?thesis
    by (simp add: word_unat_eq_iff unat_of_nat unsigned_ucast_eq take_bit_eq_mod)
qed

lemma le_bytes_4_word:
  "le_bytes 4 (unat (w :: 32 word)) =
     [ucast w, ucast (drop_bit 8 w), ucast (drop_bit 16 w), ucast (drop_bit 24 w)]"
  using byte_of_word [of w 0] byte_of_word [of w 8] byte_of_word [of w 16]
    byte_of_word [of w 24]
  by (simp add: le_bytes_4)

lemma pack_I_word: "pack_I (uint (w :: 32 word)) =
   Inr [ucast w, ucast (drop_bit 8 w), ucast (drop_bit 16 w), ucast (drop_bit 24 w)]"
proof -
  have "uint w < 2 ^ 32" using uint_lt2p [of w] by simp
  then show ?thesis by (simp add: pack_I_def le_bytes_4_word flip: unat_eq_nat_uint)
qed


lemma bind_exn_simps [simp]:
  "bind_exn (Inr x) f = f x"
  "bind_exn (Inl e) f = Inl e"
  by (simp_all add: bind_exn_def)

lemma bind_exn_if:
  "bind_exn (if c then a else b) f = (if c then bind_exn a f else bind_exn b f)"
  by simp

lemma then_pure_simps [simp]:
  "fst (then_pure r f) = bind_exn (fst r) f"
  "snd (then_pure r f) = snd r"
  by (simp_all add: then_pure_def)

lemma exchange_snd [simp]:
  "snd (exchange self p) = self\<lparr>sent := sent self @ [(0x6A, p)]\<rparr>"
  by (simp add: exchange_def)

lemma exchange_test_device [simp]:
  "fst (exchange (test_device d) p) = Inr d"
  by (simp add: exchange_def test_device_def slice_def)

lemma sent_test_device [simp]: "sent (test_device d) = []"
  by (simp add: test_device_def)

lemma pack_H_fits:
  "n < 2 ^ 16 \<Longrightarrow> pack_H (int n) = Inr [of_nat (n mod 256), of_nat (n div 256)]"
  by (simp add: pack_H_def le_bytes_2)

lemma pack_H_overflow: "2 ^ 16 \<le> n \<Longrightarrow> pack_H (int n) = Inl StructError"
  by (simp add: pack_H_def)

lemma pack_HI_overflow:
  "2 ^ 16 \<le> length data + 4 \<Longrightarrow> pack_HI (int (length data) + 4) c = Inl StructError"
  using pack_H_overflow [of "length data + 4"] by (simp add: pack_HI_def)

lemma rmminib_send_overflow:
  "2 ^ 16 \<le> length data + 4 \<Longrightarrow> rmminib_send self c data = (Inl StructError, self)"
  by (simp add: rmminib_send_def pack_HI_overflow)

lemma unpack_H_take:
  "unpack_H (take 2 d) =
     (if length d < 2 then Inl StructError else Inr (unat (d ! 0) + 256 * unat (d ! 1)))"
  by (cases d rule: list.exhaust; simp add: unpack_H_def; cases "tl d"; auto simp: unpack_H_def)

lemma slice_nth: "slice i j b = map ((!) b) [i ..< min j (length b)]"
  by (auto simp: slice_def list_eq_iff_nth_eq min_def)

lemma rmminib_send_word:
  "length data + 4 < 2 ^ 16 \<Longrightarrow>
   rmminib_send self (uint (w :: 32 word)) data =
     then_pure
       (exchange self
          ([of_nat ((length data + 4) mod 256), of_nat ((length data + 4) div 256),
            ucast w, ucast (drop_bit 8 w), ucast (drop_bit 16 w), ucast (drop_bit 24 w)]
           @ data))
       (\<lambda>payload.
          if length payload < 2 then Inl StructError
          else Inr (map ((!) payload)
                 [6 ..< min (unat (payload ! 0) + 256 * unat (payload ! 1) + 2)
                          (length payload)]))"
  using pack_H_fits [of "length data + 4"]
  by (simp add: rmminib_send_def pack_HI_def pack_I_word unpack_H_take slice_nth
      bind_exn_if cong: if_cong)

subsection \<open>The length field of the extended frame\<close>

lemma le16_value:
  "n < 2 ^ 16 \<Longrightarrow> unat (of_nat (n mod 256) :: byte) + 256 * unat (of_nat (n div 256) :: byte) = n"
  by (simp add: unat_of_nat) 

text \<open>
  Claim C10. Extended framing (\<^verbatim>\<open>rmminib._send\<close>) packs \<^verbatim>\<open>len(data) + 4\<close> as an unsigned
  16-bit item. For every payload with \<^verbatim>\<open>len(data) + 4 < 2^16\<close> and every 32-bit opcode
  one frame is handed to the transport, and its first two bytes, read little-endian,
  are exactly \<^verbatim>\<open>len(data) + 4\<close>. For every longer payload, and whatever the command,
  \<^verbatim>\<open>struct.pack\<close> raises: the call ends in \<^verbatim>\<open>struct.error\<close>, nothing is sent, and the
  length is never reduced modulo \<open>2^16\<close>.
\<close>

theorem extended_length_field:
  "(length data + 4 < 2 ^ 16 \<longrightarrow>
      (\<exists>frame. sent (snd (rmminib_send self (uint (opcode :: 32 word)) data))
                 = sent self @ [(0x6A, frame)]
         \<and> length frame = 6 + length data
         \<and> unat (frame ! 0) + 256 * unat (frame ! 1) = length data + 4))
   \<and> (2 ^ 16 \<le> length data + 4 \<longrightarrow>
        rmminib_send self command data = (Inl StructError, self))"
proof (intro conjI impI)
  assume fits: "length data + 4 < 2 ^ 16"
  let ?frame = "[of_nat ((length data + 4) mod 256), of_nat ((length data + 4) div 256),
            ucast opcode, ucast (drop_bit 8 opcode), ucast (drop_bit 16 opcode),
            ucast (drop_bit 24 opcode)] @ data"
  have "sent (snd (rmminib_send self (uint opcode) data)) = sent self @ [(0x6A, ?frame)]"
    by (simp add: rmminib_send_word [OF fits])
  moreover have "length ?frame = 6 + length data" by simp
  moreover have "unat (?frame ! 0) + 256 * unat (?frame ! 1) = length data + 4"
    using le16_value [OF fits] by simp
  ultimately show "\<exists>frame. sent (snd (rmminib_send self (uint opcode) data))
                 = sent self @ [(0x6A, frame)]
         \<and> length frame = 6 + length data
         \<and> unat (frame ! 0) + 256 * unat (frame ! 1) = length data + 4"
    by blast
next
  assume "2 ^ 16 \<le> length data + 4"
  then show "rmminib_send self command data = (Inl StructError, self)"
    by (rule rmminib_send_overflow)
qed

theorem extended_length_field_witness:
  "(\<exists>frame. sent (snd (rmminib_send (test_device []) 2 [1, 2, 3])) = [(0x6A, frame)]
         \<and> length frame = 9
         \<and> unat (frame ! 0) + 256 * unat (frame ! 1) = 7)
   \<and> rmminib_send (test_device []) 2 (replicate 65532 0) = (Inl StructError, test_device [])"
  using extended_length_field [of "[1, 2, 3]" "test_device []" 2]
    extended_length_field [of "replicate 65532 0" "test_device []" _ 2]
  by simp

subsection \<open>The frame codec\<close>

lemma pack_I_u32: "pack_I (uint w) = Inr (u32_le w)"
  by (simp add: pack_I_word u32_le_def)

lemma pack_HI_u16_u32:
  "n < 2 ^ 16 \<Longrightarrow> pack_HI (int n) (uint w) = Inr (u16_le n @ u32_le w)"
  by (simp add: pack_HI_def pack_H_def le_bytes_2 u16_le_def pack_I_u32)

lemma rmmini_send_frame:
  "snd (rmmini_send self (uint w) data)
     = self\<lparr>sent := sent self @ [(0x6A, u32_le w @ data)]\<rparr>"
  by (simp add: rmmini_send_def pack_I_u32)

lemma rmmini_send_reply:
  "fst (rmmini_send self (uint w) data)
     = bind_exn (fst (exchange self (u32_le w @ data))) (\<lambda>d. Inr (drop 4 d))"
  by (simp add: rmmini_send_def pack_I_u32)

lemma rmminib_send_frame:
  "length data + 4 < 2 ^ 16 \<Longrightarrow>
   snd (rmminib_send self (uint w) data)
     = self\<lparr>sent := sent self @ [(0x6A, u16_le (length data + 4) @ u32_le w @ data)]\<rparr>"
  using pack_HI_u16_u32 [of "length data + 4" w]
  by (simp add: rmminib_send_def)

lemma rmminib_send_reply:
  "length data + 4 < 2 ^ 16 \<Longrightarrow>
   fst (rmminib_send self (uint w) data)
     = bind_exn (fst (exchange self (u16_le (length data + 4) @ u32_le w @ data)))
         (\<lambda>d. if length d < 2 then Inl StructError
              else Inr (map ((!) d) [6 ..< min (u16_at0 d + 2) (length d)]))"
  using pack_HI_u16_u32 [of "length data + 4" w]
  by (simp add: rmminib_send_def unpack_H_take slice_nth bind_exn_if u16_at0_def
      cong: if_cong)

text \<open>
  Claim C1, as amended. For every 32-bit opcode and every payload, \<^verbatim>\<open>rmmini._send\<close>
  hands the transport the four little-endian opcode bytes followed directly by the
  payload. For every 32-bit opcode and every payload of at most 65531 bytes,
  \<^verbatim>\<open>rmminib._send\<close> hands it the two little-endian bytes of \<^verbatim>\<open>len(payload) + 4\<close>, the four
  opcode bytes and the payload; for a longer payload it raises \<^verbatim>\<open>struct.error\<close> and
  produces no frame. On decode the legacy logical payload is the decrypted buffer from
  offset 0x04 to its end, and the extended logical payload, for a decrypted buffer of at
  least two bytes, is the bytes at offsets 0x06 up to \<open>p_len + 2\<close> (exclusive) that the
  buffer has, \<open>p_len\<close> being the little-endian 16-bit value at offsets 0 and 1.
\<close>

theorem frame_codec:
  "sent (snd (rmmini_send self (uint opcode) data))
     = sent self @ [(0x6A, u32_le opcode @ data)]
   \<and> (length data + 4 < 2 ^ 16 \<longrightarrow>
        sent (snd (rmminib_send self (uint opcode) data))
          = sent self @ [(0x6A, u16_le (length data + 4) @ u32_le opcode @ data)])
   \<and> (2 ^ 16 \<le> length data + 4 \<longrightarrow>
        rmminib_send self (uint opcode) data = (Inl StructError, self))
   \<and> (fst (exchange self (u32_le opcode @ data)) = Inr decrypted \<longrightarrow>
        fst (rmmini_send self (uint opcode) data) = Inr (drop 0x04 decrypted))
   \<and> (length data + 4 < 2 ^ 16
        \<and> fst (exchange self (u16_le (length data + 4) @ u32_le opcode @ data))
            = Inr decrypted
        \<and> 2 \<le> length decrypted \<longrightarrow>
        fst (rmminib_send self (uint opcode) data)
          = Inr (map ((!) decrypted)
                  [0x06 ..< min (u16_at0 decrypted + 2) (length decrypted)]))"
  by (simp add: rmmini_send_frame rmminib_send_frame rmminib_send_overflow
      rmmini_send_reply rmminib_send_reply)

text \<open>
  The claim as first stated asks the extended frame of every payload. A payload of 65532
  bytes has \<^verbatim>\<open>len(payload) + 4 = 65536\<close>, which the \<^verbatim>\<open>H\<close> item cannot hold: the call raises
  and the transport is handed nothing.
\<close>

theorem frame_codec_counterexample:
  "rmminib_send (test_device []) 0x02 (replicate 65532 0) = (Inl StructError, test_device [])
   \<and> sent (snd (rmminib_send (test_device []) 0x02 (replicate 65532 0))) = []"
  using rmminib_send_overflow [of "replicate 65532 0" "test_device []" 2]
  by simp

theorem frame_codec_witness:
  "sent (snd (rmmini_send (test_device [0, 0, 0, 0, 9]) 0x02 [0x26, 0x00]))
     = [(0x6A, [0x02, 0, 0, 0, 0x26, 0x00])]
   \<and> sent (snd (rmminib_send (test_device [0x05, 0, 0, 0, 0, 0, 9]) 0x02 [0x26, 0x00]))
     = [(0x6A, [0x06, 0, 0x02, 0, 0, 0, 0x26, 0x00])]
   \<and> rmminib_send (test_device []) 0x02 (replicate 65532 0) = (Inl StructError, test_device [])
   \<and> fst (rmmini_send (test_device [0, 0, 0, 0, 9]) 0x02 [0x26, 0x00]) = Inr [9]
   \<and> fst (rmminib_send (test_device [0x05, 0, 0, 0, 0, 0, 9]) 0x02 [0x26, 0x00]) = Inr [9]"
  using frame_codec [of "test_device [0, 0, 0, 0, 9]" 2 "[0x26, 0x00]" "[0, 0, 0, 0, 9]"]
    frame_codec [of "test_device [0x05, 0, 0, 0, 0, 0, 9]" 2 "[0x26, 0x00]"
      "[0x05, 0, 0, 0, 0, 0, 9]"]
    frame_codec [of "test_device []" 2 "replicate 65532 0"]
  by (simp add: u32_le_def u16_le_def u16_at0_def)

subsection \<open>Short and corrupted responses\<close>

text \<open>
  Claim C3, as amended. Legacy decoding never fails: whatever the decrypted buffer, the
  result is the buffer from offset 4 on, which is empty when the buffer has fewer than
  four bytes. Extended decoding fails, with \<^verbatim>\<open>struct.error\<close>, exactly when the buffer has
  fewer than two bytes; otherwise it returns the bytes at offsets 6 up to \<open>p_len + 2\<close>
  that the buffer has. So no read is out of bounds, but when \<open>p_len + 2\<close> reaches past
  the end of the buffer the result is silently cut to the bytes from offset 6 on.
\<close>

theorem logical_payload_decoding:
  "(fst (exchange self (u32_le opcode @ data)) = Inr decrypted \<longrightarrow>
      fst (rmmini_send self (uint opcode) data) = Inr (drop 0x04 decrypted)
      \<and> (length decrypted < 4 \<longrightarrow> fst (rmmini_send self (uint opcode) data) = Inr []))
   \<and> (length data + 4 < 2 ^ 16
        \<and> fst (exchange self (u16_le (length data + 4) @ u32_le opcode @ data))
            = Inr decrypted \<longrightarrow>
        (length decrypted < 2 \<longrightarrow>
           fst (rmminib_send self (uint opcode) data) = Inl StructError)
        \<and> (2 \<le> length decrypted \<longrightarrow>
             fst (rmminib_send self (uint opcode) data)
               = Inr (map ((!) decrypted)
                       [0x06 ..< min (u16_at0 decrypted + 2) (length decrypted)]))
        \<and> (2 \<le> length decrypted \<and> length decrypted \<le> u16_at0 decrypted + 2 \<longrightarrow>
             fst (rmminib_send self (uint opcode) data) = Inr (drop 0x06 decrypted)))"
proof -
  have legacy: "fst (exchange self (u32_le opcode @ data)) = Inr decrypted \<longrightarrow>
      fst (rmmini_send self (uint opcode) data) = Inr (drop 0x04 decrypted)
      \<and> (length decrypted < 4 \<longrightarrow> fst (rmmini_send self (uint opcode) data) = Inr [])"
    by (simp add: rmmini_send_reply)
  have extended: "length data + 4 < 2 ^ 16
        \<and> fst (exchange self (u16_le (length data + 4) @ u32_le opcode @ data))
            = Inr decrypted \<longrightarrow>
        (length decrypted < 2 \<longrightarrow>
           fst (rmminib_send self (uint opcode) data) = Inl StructError)
        \<and> (2 \<le> length decrypted \<longrightarrow>
             fst (rmminib_send self (uint opcode) data)
               = Inr (map ((!) decrypted)
                       [0x06 ..< min (u16_at0 decrypted + 2) (length decrypted)]))"
    by (simp add: rmminib_send_reply)
  have cut: "fst (rmminib_send self (uint opcode) data) = Inr (drop 0x06 decrypted)"
    if fits: "length data + 4 < 2 ^ 16"
      and reply: "fst (exchange self (u16_le (length data + 4) @ u32_le opcode @ data))
            = Inr decrypted"
      and len: "2 \<le> length decrypted" "length decrypted \<le> u16_at0 decrypted + 2"
  proof -
    from len have m: "min (u16_at0 decrypted + 2) (length decrypted) = length decrypted"
      by simp
    have d: "map ((!) decrypted) [6 ..< length decrypted] = drop 6 decrypted"
      by (simp add: list_eq_iff_nth_eq)
    from fits reply len(1) extended
    have "fst (rmminib_send self (uint opcode) data)
               = Inr (map ((!) decrypted)
                       [0x06 ..< min (u16_at0 decrypted + 2) (length decrypted)])"
      by blast
    then show ?thesis unfolding m d .
  qed
  from legacy extended cut show ?thesis by blast
qed

text \<open>
  The claim as first stated asks a failure for a legacy buffer of fewer than four bytes,
  for an extended buffer of fewer than six, and for a length field that reaches past the
  buffer. A two-byte legacy buffer and a three-byte extended buffer both decode to the
  empty payload, and an eight-byte extended buffer announcing \<open>p_len = 0xFFFF\<close> decodes
  to its last two bytes.
\<close>

theorem logical_payload_decoding_counterexample:
  "fst (rmmini_send (test_device [0x01, 0x02]) 0x04 []) = Inr []
   \<and> fst (rmminib_send (test_device [0x00, 0x00, 0x00]) 0x04 []) = Inr []
   \<and> fst (rmminib_send (test_device [0xFF, 0xFF, 0, 0, 0, 0, 0x07, 0x08]) 0x04 [])
       = Inr [0x07, 0x08]"
  using rmmini_send_reply [of "test_device [0x01, 0x02]" 4 "[]"]
    rmminib_send_reply [of "[]" "test_device [0x00, 0x00, 0x00]" 4]
    rmminib_send_reply [of "[]" "test_device [0xFF, 0xFF, 0, 0, 0, 0, 0x07, 0x08]" 4]
  by (simp add: u16_at0_def)

theorem logical_payload_decoding_witness:
  "fst (rmmini_send (test_device [0x01, 0x02]) 0x04 []) = Inr []
   \<and> fst (rmminib_send (test_device [0x09]) 0x04 []) = Inl StructError
   \<and> fst (rmminib_send (test_device [0x05, 0, 0, 0, 0, 0, 0x07, 0x08]) 0x04 []) = Inr [0x07]
   \<and> fst (rmminib_send (test_device [0xFF, 0xFF, 0, 0, 0, 0, 0x07, 0x08]) 0x04 [])
       = Inr [0x07, 0x08]"
  using logical_payload_decoding [of "test_device [0x01, 0x02]" 4 "[]" "[0x01, 0x02]"]
    logical_payload_decoding [of "test_device [0x09]" 4 "[]" "[0x09]"]
    logical_payload_decoding [of "test_device [0x05, 0, 0, 0, 0, 0, 0x07, 0x08]" 4 "[]"
      "[0x05, 0, 0, 0, 0, 0, 0x07, 0x08]"]
    logical_payload_decoding [of "test_device [0xFF, 0xFF, 0, 0, 0, 0, 0x07, 0x08]" 4 "[]"
      "[0xFF, 0xFF, 0, 0, 0, 0, 0x07, 0x08]"]
  by (simp add: u16_at0_def)

subsection \<open>Calls on the example device\<close>

lemmas dispatch = invoke_def resolve_def mro_table returning_def call_check_sensors_def

lemma rmmini_send_int:
  "0 \<le> c \<Longrightarrow> c < 2 ^ 32 \<Longrightarrow>
   rmmini_send self c data =
     then_pure (exchange self (le_bytes 4 (nat c) @ data)) (\<lambda>payload. Inr (drop 4 payload))"
  by (simp add: rmmini_send_def pack_I_def)

lemma rmminib_send_int:
  "0 \<le> c \<Longrightarrow> c < 2 ^ 32 \<Longrightarrow> length data + 4 < 2 ^ 16 \<Longrightarrow>
   rmminib_send self c data =
     then_pure (exchange self (u16_le (length data + 4) @ le_bytes 4 (nat c) @ data))
       (\<lambda>payload. if length payload < 2 then Inl StructError
                  else Inr (slice 6 (u16_at0 payload + 2) payload))"
proof -
  assume c: "0 \<le> c" "c < 2 ^ 32" and fits: "length data + 4 < 2 ^ 16"
  have n: "int (length data) + 4 = int (length data + 4)" by simp
  have nn: "nat (int (length data) + 4) = length data + 4" by simp
  from fits have h: "pack_H (int (length data + 4)) = Inr (u16_le (length data + 4))"
    by (simp add: pack_H_def le_bytes_2 u16_le_def nn)
  from c show ?thesis
    unfolding rmminib_send_def pack_HI_def n h
    by (simp add: pack_I_def unpack_H_take bind_exn_if u16_at0_def cong: if_cong)
qed

lemma unat_eq_1_iff: "unat (b :: byte) = Suc 0 \<longleftrightarrow> b = 1"
  by (simp add: word_unat_eq_iff)

lemma legacy_test_device:
  "cls \<in> {rmmini, rmpro, rm} \<Longrightarrow> 0 \<le> c \<Longrightarrow> c < 2 ^ 32 \<Longrightarrow>
   fst (call_send cls (test_device d) c data) = Inr (drop 4 d)"
  by (auto simp: call_send_table rmmini_send_int)

lemma extended_test_device:
  "cls \<in> {rmminib, rm4mini, rm4pro, rm4} \<Longrightarrow> 0 \<le> c \<Longrightarrow> c < 2 ^ 32 \<Longrightarrow>
   length data + 4 < 2 ^ 16 \<Longrightarrow> 2 \<le> length d \<Longrightarrow>
   fst (call_send cls (test_device d) c data) = Inr (slice 6 (u16_at0 d + 2) d)"
  by (auto simp: call_send_table rmminib_send_int)

subsection \<open>Checking the frequency\<close>

text \<open>
  Claim C8. On every class that has \<^verbatim>\<open>check_frequency\<close> (\<^verbatim>\<open>rmpro\<close>, \<^verbatim>\<open>rm4pro\<close> and the
  aliases \<^verbatim>\<open>rm\<close>, \<^verbatim>\<open>rm4\<close>), when \<^verbatim>\<open>_send(0x1A)\<close> returns a response whose first byte is
  \<open>b\<close>, the method returns \<^verbatim>\<open>True\<close> if \<open>b\<close> is exactly 1 and \<^verbatim>\<open>False\<close> for every other
  value of \<open>b\<close>, 0x00 and 0xFF included; the bytes after the first play no part.
\<close>

theorem check_frequency_first_byte:
  "cls \<in> {rmpro, rm4pro, rm, rm4} \<and> fst (call_send cls self 0x1A []) = Inr (b # rest) \<longrightarrow>
     fst (invoke cls Check_frequency self) = Inr (PBool (b = 0x01))"
  by (auto simp: dispatch rmpro_check_frequency_def index_def unat_eq_1_iff)

theorem check_frequency_first_byte_witness:
  "fst (invoke rmpro Check_frequency (test_device [0, 0, 0, 0, 0x01])) = Inr (PBool True)
   \<and> fst (invoke rm Check_frequency (test_device [0, 0, 0, 0, 0x00, 0x01])) = Inr (PBool False)
   \<and> fst (invoke rm4pro Check_frequency (test_device [0x05, 0, 0, 0, 0, 0, 0xFF]))
       = Inr (PBool False)
   \<and> fst (invoke rm4 Check_frequency (test_device [0x06, 0, 0, 0, 0, 0, 0x02, 0x01]))
       = Inr (PBool False)"
  using check_frequency_first_byte [of rmpro "test_device [0, 0, 0, 0, 0x01]" 1 "[]"]
    check_frequency_first_byte [of rm "test_device [0, 0, 0, 0, 0x00, 0x01]" 0 "[0x01]"]
    check_frequency_first_byte [of rm4pro "test_device [0x05, 0, 0, 0, 0, 0, 0xFF]" "0xFF" "[]"]
    check_frequency_first_byte [of rm4 "test_device [0x06, 0, 0, 0, 0, 0, 0x02, 0x01]" 2 "[0x01]"]
  by (simp add: legacy_test_device extended_test_device slice_def u16_at0_def)

subsection \<open>Rounding to a double\<close>

text \<open>
  The quotient of two numerals is evaluated by the simplifier, so that \<open>round_double\<close>
  computes on the examples.
\<close>

lemma floor_rat_numeral [simp]:
  "\<lfloor>(numeral a :: rat) / numeral b\<rfloor> = numeral a div numeral b"
  using floor_divide_of_int_eq [of "numeral a" "numeral b", where ?'a = rat] by simp

lemmas float_eval = round_double_def binade_def
  binade_up.simps binade_down.simps round_even_def Let_def

text \<open>
  The rounding is off by at most half a unit in the last place; for the sensor
  formula \<open>a + b / d\<close> on bytes the two roundings together stay below \<open>2\<^sup>-\<^sup>4\<^sup>3\<close>.
\<close>

lemma round_even_error: "\<bar>of_int (round_even n) - n\<bar> \<le> 1 / 2"
proof -
  have "of_int \<lfloor>n\<rfloor> \<le> n" and "n < of_int \<lfloor>n\<rfloor> + 1"
    using floor_correct [of n] by simp_all
  then show ?thesis
    by (auto simp: round_even_def Let_def abs_le_iff)
qed

lemma binade_up_bounds:
  "1 \<le> x \<Longrightarrow> 2 powi binade_up x \<le> x"
proof (induction x rule: binade_up.induct)
  case (1 x)
  show ?case
  proof (cases "2 \<le> x")
    case True
    then have "2 powi binade_up (x / 2) \<le> x / 2" using "1.IH" by simp
    then have "2 powi (binade_up (x / 2) + 1) \<le> x"
      by (simp add: power_int_add)
    with True show ?thesis by (subst binade_up.simps) simp
  next
    case False
    with "1.prems" show ?thesis by (subst binade_up.simps) simp
  qed
qed

lemma binade_down_bounds:
  "0 < x \<Longrightarrow> x < 1 \<Longrightarrow> 2 powi binade_down x \<le> x"
proof (induction x rule: binade_down.induct)
  case (1 x)
  have unfold: "binade_down x = binade_down (x * 2) - 1"
    using "1.prems" by (subst binade_down.simps) simp
  show ?case
  proof (cases "x * 2 < 1")
    case True
    with "1.prems" have "2 powi binade_down (x * 2) \<le> x * 2" using "1.IH" by simp
    then have "2 powi (binade_down (x * 2) - 1) \<le> x"
      by (simp add: power_int_diff)
    then show ?thesis by (simp only: unfold)
  next
    case False
    then have "binade_down (x * 2) = 0" by (subst binade_down.simps) simp
    with False show ?thesis by (simp add: unfold power_int_minus)
  qed
qed

lemma binade_bounds: "0 < x \<Longrightarrow> 2 powi binade x \<le> x"
  by (simp add: binade_def binade_up_bounds binade_down_bounds)

lemma round_double_error:
  "\<bar>round_double x - x\<bar> \<le> \<bar>x\<bar> / 2 ^ 53 + 2 powi (- 1074) / 2"
proof (cases "x = 0")
  case True
  then show ?thesis by (simp add: round_double_def)
next
  case False
  define k where "k = max (binade \<bar>x\<bar> - 52) (- 1074)"
  define u :: rat where "u = 2 powi k"
  define m where "m = round_even (\<bar>x\<bar> / u)"
  have u: "0 < u" by (simp add: u_def)
  have rd: "round_double x = sgn x * of_int m * u"
    using False by (simp add: round_double_def Let_def k_def u_def m_def)
  have "round_double x - x = sgn x * (of_int m * u - \<bar>x\<bar>)"
    by (simp add: rd algebra_simps abs_mult_sgn)
  then have "\<bar>round_double x - x\<bar> = \<bar>of_int m * u - \<bar>x\<bar>\<bar>"
    using False by (simp add: abs_mult abs_sgn_eq)
  also have "of_int m * u - \<bar>x\<bar> = (of_int m - \<bar>x\<bar> / u) * u"
    using u by (simp add: field_simps)
  also have "\<bar>(of_int m - \<bar>x\<bar> / u) * u\<bar> = \<bar>of_int m - \<bar>x\<bar> / u\<bar> * u"
    using u by (simp add: abs_mult)
  also have "\<dots> \<le> 1 / 2 * u"
    using round_even_error [of "\<bar>x\<bar> / u"] u
    by (intro mult_right_mono) (simp_all add: m_def)
  finally have e: "\<bar>round_double x - x\<bar> \<le> u / 2" by simp
  have "u \<le> 2 powi (binade \<bar>x\<bar> - 52) + 2 powi (- 1074)"
    by (simp add: u_def k_def max_def)
  also have "(2::rat) powi (binade \<bar>x\<bar> - 52) = 2 powi binade \<bar>x\<bar> / 2 ^ 52"
    by (simp add: power_int_diff)
  also have "\<dots> \<le> \<bar>x\<bar> / 2 ^ 52"
    using binade_bounds [of "\<bar>x\<bar>"] False by (simp add: divide_right_mono)
  finally have "u \<le> \<bar>x\<bar> / 2 ^ 52 + 2 powi (- 1074)" by simp
  with e show ?thesis by (simp add: field_simps)
qed

lemma subnormal_step_small: "(2::rat) powi (- 1074) / 2 \<le> 1 / 2 ^ 53"
proof -
  have "(2::rat) powi (- 1074) \<le> 2 powi (- 52)"
    by (rule power_int_increasing) simp_all
  then show ?thesis by simp
qed

lemma float_formula_error:
  assumes a: "\<bar>a\<bar> \<le> 256" and b: "\<bar>b / d\<bar> \<le> 32"
  shows "\<bar>float_add a (float_div b d) - (a + b / d)\<bar> \<le> 1 / 2 ^ 43"
proof -
  define q where "q = round_double (b / d)"
  define s where "s = round_double (a + q)"
  have e1: "\<bar>q - b / d\<bar> \<le> 32 / 2 ^ 53 + 1 / 2 ^ 53"
  proof -
    have "\<bar>q - b / d\<bar> \<le> \<bar>b / d\<bar> / 2 ^ 53 + 2 powi (- 1074) / 2"
      unfolding q_def by (rule round_double_error)
    also have "\<bar>b / d\<bar> / 2 ^ 53 \<le> 32 / 2 ^ 53"
      using b by (simp add: divide_right_mono)
    finally show ?thesis using subnormal_step_small by linarith
  qed
  moreover have "(32::rat) / 2 ^ 53 + 1 / 2 ^ 53 \<le> 1" by simp
  ultimately have "\<bar>q - b / d\<bar> \<le> 1" by linarith
  with b have q: "\<bar>q\<bar> \<le> 33" by linarith
  have e2: "\<bar>s - (a + q)\<bar> \<le> 289 / 2 ^ 53 + 1 / 2 ^ 53"
  proof -
    have "\<bar>s - (a + q)\<bar> \<le> \<bar>a + q\<bar> / 2 ^ 53 + 2 powi (- 1074) / 2"
      unfolding s_def by (rule round_double_error)
    also have "\<bar>a + q\<bar> / 2 ^ 53 \<le> 289 / 2 ^ 53"
    proof (rule divide_right_mono)
      from a q show "\<bar>a + q\<bar> \<le> 289" by linarith
    qed simp
    finally show ?thesis using subnormal_step_small by linarith
  qed
  have "s - (a + b / d) = (s - (a + q)) + (q - b / d)" by simp
  then have "\<bar>s - (a + b / d)\<bar> \<le> \<bar>s - (a + q)\<bar> + \<bar>q - b / d\<bar>"
    by (simp only: abs_triangle_ineq)
  with e1 e2 have "\<bar>s - (a + b / d)\<bar> \<le> 323 / 2 ^ 53" by linarith
  also have "\<dots> \<le> 1 / 2 ^ 43" by simp
  finally show ?thesis by (simp add: s_def q_def float_add_def float_div_def)
qed

lemma sint_byte: "\<bar>(of_int (sint (b :: 8 word)) :: rat)\<bar> \<le> 128"
proof -
  have "- 128 \<le> sint b" "sint b < 128"
    using sint_ge [of b] sint_lt [of b] by simp_all
  then have "\<bar>sint b\<bar> \<le> 128" by linarith
  then have "(of_int \<bar>sint b\<bar> :: rat) \<le> of_int 128" by (simp only: of_int_le_iff)
  then show ?thesis by simp
qed

lemma unat_byte: "\<bar>(of_nat (unat (b :: 8 word)) :: rat)\<bar> \<le> 255"
proof -
  have "unat b < 2 ^ 8" using unsigned_less [of b, where ?'a = nat] by simp
  then have "unat b \<le> 255" by simp
  then have "(of_nat (unat b) :: rat) \<le> of_nat 255" by (simp only: of_nat_le_iff)
  moreover have "(0::rat) \<le> of_nat (unat b)" by (rule of_nat_0_le_iff)
  ultimately show ?thesis by simp
qed

lemma signed_formula_error:
  assumes "d = 10 \<or> d = 100"
  shows "\<bar>float_add (of_int (sint (b0 :: 8 word))) (float_div (of_int (sint (b1 :: 8 word))) d)
      - (of_int (sint b0) + of_int (sint b1) / d)\<bar> \<le> 1 / 2 ^ 43"
proof (rule float_formula_error)
  show "\<bar>(of_int (sint b0) :: rat)\<bar> \<le> 256" using sint_byte [of b0] by linarith
  have "\<bar>(of_int (sint b1) :: rat) / d\<bar> = \<bar>of_int (sint b1)\<bar> / d"
    using assms by auto
  also have "\<dots> \<le> 128 / d"
    using assms sint_byte [of b1] by (intro divide_right_mono) auto
  also have "\<dots> \<le> 32" using assms by auto
  finally show "\<bar>(of_int (sint b1) :: rat) / d\<bar> \<le> 32" .
qed

lemma unsigned_formula_error:
  "\<bar>float_add (of_nat (unat (b2 :: 8 word))) (float_div (of_nat (unat (b3 :: 8 word))) 100)
      - (of_nat (unat b2) + of_nat (unat b3) / 100)\<bar> \<le> 1 / 2 ^ 43"
proof (rule float_formula_error)
  show "\<bar>(of_nat (unat b2) :: rat)\<bar> \<le> 256" using unat_byte [of b2] by linarith
  have "\<bar>(of_nat (unat b3) :: rat) / 100\<bar> = \<bar>of_nat (unat b3)\<bar> / 100" by simp
  also have "\<dots> \<le> 255 / 100"
    using unat_byte [of b3] by (intro divide_right_mono) simp_all
  also have "\<dots> \<le> 32" by simp
  finally show "\<bar>(of_nat (unat b3) :: rat) / 100\<bar> \<le> 32" .
qed

subsection \<open>Reading the sensors\<close>

lemma unpack_bb_take:
  "unpack_bb (take 2 d) =
     (if length d < 2 then Inl StructError else Inr (sint (d ! 0), sint (d ! 1)))"
  by (cases d rule: list.exhaust; simp add: unpack_bb_def; cases "tl d"; auto simp: unpack_bb_def)

lemma bind_exn_eq_Inr:
  "bind_exn m f = Inr y \<longleftrightarrow> (\<exists>x. m = Inr x \<and> f x = Inr y)"
  by (cases m) simp_all

lemma then_pure_eq_pair [simp]:
  "then_pure r f = (y, s) \<longleftrightarrow> bind_exn (fst r) f = y \<and> snd r = s"
  by (auto simp: then_pure_def)

lemma gen_A_check_sensors:
  assumes "cls \<in> {rmpro, rm}" and "fst (call_send cls self 0x1 []) = Inr resp"
    and "2 \<le> length resp"
  shows "fst (invoke cls Check_sensors self) =
     Inr (PDict [(''temperature'',
        PFloat (float_add (of_int (sint (resp ! 0)))
                  (float_div (of_int (sint (resp ! 1))) 10)))])"
  using assms by (auto simp: dispatch rmpro_check_sensors_def unpack_bb_take)

lemma gen_B_check_sensors:
  assumes "cls \<in> {rm4mini, rm4pro, rm4}" and "fst (call_send cls self 0x24 []) = Inr resp"
    and "4 \<le> length resp"
  shows "fst (invoke cls Check_sensors self) =
     Inr (PDict [(''temperature'',
        PFloat (float_add (of_int (sint (resp ! 0)))
                  (float_div (of_int (sint (resp ! 1))) 100))),
       (''humidity'',
        PFloat (float_add (of_nat (unat (resp ! 2)))
                  (float_div (of_nat (unat (resp ! 3))) 100)))])"
  using assms by (auto simp: dispatch rm4mini_check_sensors_def unpack_bb_take index_def)

lemma legacy_no_humidity:
  assumes "cls \<in> {rmmini, rmpro, rm}" and "fst (invoke cls c self) = Inr (PDict r)"
  shows "map_of r ''humidity'' = None"
  using assms
  by (cases c)
    (auto simp: dispatch rmmini_fetch_data_def rmpro_fetch_data_def rmpro_check_sensors_def
      rmpro_check_temperature_def getitem_def rmmini_send_data_def rmmini_enter_learning_def
      rmmini_check_data_def rmpro_sweep_frequency_def rmpro_check_frequency_def
      rmpro_find_rf_packet_def rmpro_cancel_sweep_frequency_def
      bind_exn_eq_Inr split: option.splits)

lemma float_examples:
  "float_add 25 (float_div 2 10) = 7093169413108531 / 281474976710656"
  "float_add 25 (float_div 2 100) = 7042503917300613 / 281474976710656"
  "float_add 60 (float_div 5 100) = 4225643087868723 / 70368744177664"
  "float_add 1 (float_div (- 88) 10) = - (2195504818343117 / 281474976710656)"
  "round_double (126 / 5) = 7093169413108531 / 281474976710656"
  "round_double (1251 / 50) = 7042503917300613 / 281474976710656"
  "round_double (1201 / 20) = 4225643087868723 / 70368744177664"
  "round_double (- (39 / 5)) = - (8782019273372467 / 1125899906842624)"
  by (simp_all add: float_add_def float_div_def float_eval)

text \<open>
  Claim C5. With \<open>resp\<close> the logical payload that \<^verbatim>\<open>_send\<close> returns: on generation A
  (\<^verbatim>\<open>rmpro\<close> and its alias \<^verbatim>\<open>rm\<close>), whenever \<open>resp\<close> has at least two bytes,
  \<^verbatim>\<open>check_sensors\<close> returns the single item \<^verbatim>\<open>temperature\<close> \<open>= b0 + b1 / 10.0\<close>, the bytes at
  offsets 0 and 1 read as signed; on generation B (\<^verbatim>\<open>rm4mini\<close>, \<^verbatim>\<open>rm4pro\<close> and the alias
  \<^verbatim>\<open>rm4\<close>), whenever \<open>resp\<close> has at least four bytes, it returns \<^verbatim>\<open>temperature\<close>
  \<open>= b0 + b1 / 100.0\<close> and \<^verbatim>\<open>humidity\<close> \<open>= b2 + b3 / 100.0\<close>, the bytes at offsets 2 and 3 read
  as unsigned. No dictionary that a method of a legacy class (\<^verbatim>\<open>rmmini\<close>, \<^verbatim>\<open>rmpro\<close>, \<^verbatim>\<open>rm\<close>)
  returns has a \<^verbatim>\<open>humidity\<close> key.

  The quotient and the sum are those of Python's floats, each rounded to a double:
  the value returned is \<open>float_add b0 (float_div b1 d)\<close>. It is within \<open>2\<^sup>-\<^sup>4\<^sup>3\<close> of the
  rational \<open>b0 + b1 / d\<close>, for every pair of bytes (the last three conjuncts), and it
  need not be the double nearest to that rational: the bytes \<open>(0x01, 0xA8)\<close> on
  generation A give \<open>-7.800000000000001\<close>, the double below \<open>-7.8\<close>.
  The examples of the claim are the first and the third instance below: the bytes
  \<open>(0x19, 0x02)\<close> give the doubles \<open>25.2\<close> and \<open>25.02\<close>, the bytes \<open>(0x3C, 0x05)\<close> give the
  double \<open>60.05\<close>, each the double nearest to the decimal.
\<close>

theorem check_sensors_decoding:
  "(cls \<in> {rmpro, rm} \<and> fst (call_send cls self 0x1 []) = Inr resp \<and> 2 \<le> length resp \<longrightarrow>
      fst (invoke cls Check_sensors self) =
        Inr (PDict [(''temperature'',
          PFloat (float_add (of_int (sint (resp ! 0)))
                    (float_div (of_int (sint (resp ! 1))) 10)))]))
   \<and> (cls \<in> {rm4mini, rm4pro, rm4} \<and> fst (call_send cls self 0x24 []) = Inr resp
        \<and> 4 \<le> length resp \<longrightarrow>
      fst (invoke cls Check_sensors self) =
        Inr (PDict [(''temperature'',
            PFloat (float_add (of_int (sint (resp ! 0)))
                      (float_div (of_int (sint (resp ! 1))) 100))),
          (''humidity'',
            PFloat (float_add (of_nat (unat (resp ! 2)))
                      (float_div (of_nat (unat (resp ! 3))) 100)))]))
   \<and> (cls \<in> {rmmini, rmpro, rm} \<and> fst (invoke cls c self) = Inr (PDict r) \<longrightarrow>
        map_of r ''humidity'' = None)
   \<and> \<bar>float_add (of_int (sint (b0 :: byte))) (float_div (of_int (sint (b1 :: byte))) 10)
        - (of_int (sint b0) + of_int (sint b1) / 10)\<bar> \<le> 1 / 2 ^ 43
   \<and> \<bar>float_add (of_int (sint b0)) (float_div (of_int (sint b1)) 100)
        - (of_int (sint b0) + of_int (sint b1) / 100)\<bar> \<le> 1 / 2 ^ 43
   \<and> \<bar>float_add (of_nat (unat (b2 :: byte))) (float_div (of_nat (unat (b3 :: byte))) 100)
        - (of_nat (unat b2) + of_nat (unat b3) / 100)\<bar> \<le> 1 / 2 ^ 43"
proof (intro conjI)
  show "\<bar>float_add (of_int (sint b0)) (float_div (of_int (sint b1)) 10)
        - (of_int (sint b0) + of_int (sint b1) / 10)\<bar> \<le> 1 / 2 ^ 43"
    by (rule signed_formula_error) simp
  show "\<bar>float_add (of_int (sint b0)) (float_div (of_int (sint b1)) 100)
        - (of_int (sint b0) + of_int (sint b1) / 100)\<bar> \<le> 1 / 2 ^ 43"
    by (rule signed_formula_error) simp
  show "\<bar>float_add (of_nat (unat b2)) (float_div (of_nat (unat b3)) 100)
        - (of_nat (unat b2) + of_nat (unat b3) / 100)\<bar> \<le> 1 / 2 ^ 43"
    by (rule unsigned_formula_error)
qed (use gen_A_check_sensors [of cls self resp] gen_B_check_sensors [of cls self resp]
      legacy_no_humidity [of cls c self r] in blast)+

theorem check_sensors_decoding_witness:
  "fst (invoke rmpro Check_sensors (test_device [0, 0, 0, 0, 0x19, 0x02]))
     = Inr (PDict [(''temperature'', PFloat (7093169413108531 / 281474976710656))])
   \<and> round_double (126 / 5) = 7093169413108531 / 281474976710656
   \<and> fst (invoke rm Check_sensors (test_device [0, 0, 0, 0, 0x01, 0xA8, 0x3C, 0x05]))
     = Inr (PDict [(''temperature'', PFloat (- (2195504818343117 / 281474976710656)))])
   \<and> round_double (- (39 / 5)) = - (8782019273372467 / 1125899906842624)
   \<and> fst (invoke rm4mini Check_sensors
          (test_device [0x08, 0, 0, 0, 0, 0, 0x19, 0x02, 0x3C, 0x05]))
     = Inr (PDict [(''temperature'', PFloat (7042503917300613 / 281474976710656)),
                   (''humidity'', PFloat (4225643087868723 / 70368744177664))])
   \<and> round_double (1251 / 50) = 7042503917300613 / 281474976710656
   \<and> round_double (1201 / 20) = 4225643087868723 / 70368744177664
   \<and> fst (invoke rm4pro Check_sensors
          (test_device [0x08, 0, 0, 0, 0, 0, 0x19, 0x02, 0x3C, 0x05]))
     = Inr (PDict [(''temperature'', PFloat (7042503917300613 / 281474976710656)),
                   (''humidity'', PFloat (4225643087868723 / 70368744177664))])
   \<and> map_of [(''temperature'', PFloat (7093169413108531 / 281474976710656))] ''humidity''
     = None"
  using
    check_sensors_decoding [of rmpro "test_device [0, 0, 0, 0, 0x19, 0x02]" "[0x19, 0x02]"
      Check_sensors "[(''temperature'', PFloat (7093169413108531 / 281474976710656))]"]
    check_sensors_decoding [of rm "test_device [0, 0, 0, 0, 0x01, 0xA8, 0x3C, 0x05]"
      "[0x01, 0xA8, 0x3C, 0x05]"]
    check_sensors_decoding [of rm4mini
      "test_device [0x08, 0, 0, 0, 0, 0, 0x19, 0x02, 0x3C, 0x05]" "[0x19, 0x02, 0x3C, 0x05]"]
    check_sensors_decoding [of rm4pro
      "test_device [0x08, 0, 0, 0, 0, 0, 0x19, 0x02, 0x3C, 0x05]" "[0x19, 0x02, 0x3C, 0x05]"]
  by (simp add: legacy_test_device extended_test_device slice_def u16_at0_def float_examples)

subsection \<open>Fetching the status\<close>

lemma split0_first_nul:
  "0 \<notin> set pre \<Longrightarrow> split0 (pre @ 0 # post) = pre"
  by (induction pre) (auto simp: split0_def)

lemma unat_pos_iff: "0 < unat (b :: byte) \<longleftrightarrow> b \<noteq> 0"
  by (simp add: unat_gt_0)

lemma fetch_data_fields:
  assumes "fst (call_send cls self 0x1 []) = Inr resp" and "0x87 < length resp"
    and "decode (split0 (drop 0x48 resp)) = Inr s"
  shows "\<exists>r. fst (invoke cls Fetch_data self) = Inr (PDict r)
           \<and> map_of r ''name'' = Some (PStr s)
           \<and> map_of r ''is_locked'' = Some (PBool (resp ! 0x87 \<noteq> 0))"
  using assms
  by (cases cls)
    (simp_all add: dispatch rmmini_fetch_data_def rmpro_fetch_data_def unpack_bb_take
      index_def unat_pos_iff)

lemma decode_living_room:
  "decode (ascii ''Living Room'') = Inr (code_points ''Living Room'')"
  by (simp add: ascii_def code_points_def)

lemma living_room_no_nul: "0 \<notin> set (ascii ''Living Room'')"
  by (simp add: ascii_def)

lemma living_room_region:
  "drop 0x48 (drop 4 living_room_example)
     = ascii ''Living Room'' @ 0 # ([0x00, 0x00] @ ascii ''junk'' @ replicate 0x2E 0)"
  by (simp add: living_room_example_def)

text \<open>
  Claim C9. With \<open>resp\<close> the logical payload that \<^verbatim>\<open>_send(0x1)\<close> returns, of more than
  0x87 bytes (so that \<^verbatim>\<open>fetch_data\<close> returns), and on every class: if the name region
  \<open>resp[0x48:]\<close> is some bytes \<open>pre\<close> without a NUL, then a NUL, then anything, the
  \<^verbatim>\<open>name\<close> item of the result is the decoding of \<open>pre\<close> alone, so no byte at or after the
  first NUL reaches the name; in particular, if the region begins with the bytes of
  \<open>Living Room\<close> followed by a NUL, the name is exactly \<open>Living Room\<close>.
\<close>

theorem name_stops_at_first_nul:
  "(fst (call_send cls self 0x1 []) = Inr resp \<and> 0x87 < length resp
      \<and> drop 0x48 resp = pre @ 0 # post \<and> 0 \<notin> set pre \<and> decode pre = Inr s \<longrightarrow>
      (\<exists>r. fst (invoke cls Fetch_data self) = Inr (PDict r)
         \<and> map_of r ''name'' = Some (PStr s)))
   \<and> (fst (call_send cls self 0x1 []) = Inr resp \<and> 0x87 < length resp
      \<and> drop 0x48 resp = ascii ''Living Room'' @ 0 # post \<longrightarrow>
      (\<exists>r. fst (invoke cls Fetch_data self) = Inr (PDict r)
         \<and> map_of r ''name'' = Some (PStr (code_points ''Living Room''))))"
proof (intro conjI impI; elim conjE)
  assume "fst (call_send cls self 0x1 []) = Inr resp" "0x87 < length resp"
    "drop 0x48 resp = pre @ 0 # post" "0 \<notin> set pre" "decode pre = Inr s"
  then show "\<exists>r. fst (invoke cls Fetch_data self) = Inr (PDict r)
         \<and> map_of r ''name'' = Some (PStr s)"
    using fetch_data_fields [of cls self resp s] by (auto simp: split0_first_nul)
next
  assume "fst (call_send cls self 0x1 []) = Inr resp" "0x87 < length resp"
    "drop 0x48 resp = ascii ''Living Room'' @ 0 # post"
  then show "\<exists>r. fst (invoke cls Fetch_data self) = Inr (PDict r)
         \<and> map_of r ''name'' = Some (PStr (code_points ''Living Room''))"
    using fetch_data_fields [of cls self resp "code_points ''Living Room''"]
    by (auto simp: split0_first_nul living_room_no_nul decode_living_room)
qed

theorem name_stops_at_first_nul_witness:
  "(\<exists>r. fst (invoke rmmini Fetch_data (test_device living_room_example)) = Inr (PDict r)
         \<and> map_of r ''name'' = Some (PStr (code_points ''Living Room'')))
   \<and> (\<exists>r. fst (invoke rm4pro Fetch_data (test_device (0x8C # 0 # living_room_example)))
            = Inr (PDict r)
         \<and> map_of r ''name'' = Some (PStr (code_points ''Living Room'')))"
proof -
  have len: "length living_room_example = 140"
    by (simp add: living_room_example_def ascii_def)
  have legacy: "fst (call_send rmmini (test_device living_room_example) 0x1 [])
      = Inr (drop 4 living_room_example)"
    by (simp add: legacy_test_device)
  have extended:
    "fst (call_send rm4pro (test_device (0x8C # 0 # living_room_example)) 0x1 [])
      = Inr (drop 4 living_room_example)"
    by (simp add: extended_test_device slice_def u16_at0_def len)
  have long: "0x87 < length (drop 4 living_room_example)"
    by (simp add: len)
  show ?thesis
    using
      name_stops_at_first_nul [of rmmini "test_device living_room_example"
        "drop 4 living_room_example" "ascii ''Living Room''"
        "[0x00, 0x00] @ ascii ''junk'' @ replicate 0x2E 0" "code_points ''Living Room''"]
      name_stops_at_first_nul [of rm4pro "test_device (0x8C # 0 # living_room_example)"
        "drop 4 living_room_example" _ "[0x00, 0x00] @ ascii ''junk'' @ replicate 0x2E 0"]
      legacy extended long living_room_region living_room_no_nul decode_living_room
    by blast
qed

text \<open>
  Claim C4, as amended. In the status parse of the legacy classes (\<^verbatim>\<open>rmmini\<close>, \<^verbatim>\<open>rmpro\<close>,
  \<^verbatim>\<open>rm\<close>) the name is decoded as UTF-8 from byte offset 0x48 of the logical payload, which
  is offset 0x4C of the decrypted buffer, up to the first NUL byte, and \<^verbatim>\<open>is_locked\<close> is the
  single byte at offset 0x87 of the logical payload, offset 0x8B of the decrypted buffer,
  true if and only if it is nonzero.
\<close>

theorem legacy_status_offsets:
  "(cls \<in> {rmmini, rmpro, rm} \<and> fst (call_send cls self 0x1 []) = Inr resp
      \<and> 0x87 < length resp
      \<and> decode (takeWhile (\<lambda>b. b \<noteq> 0) (drop 0x48 resp)) = Inr s \<longrightarrow>
      (\<exists>r. fst (invoke cls Fetch_data self) = Inr (PDict r)
         \<and> map_of r ''name'' = Some (PStr s)
         \<and> map_of r ''is_locked'' = Some (PBool (resp ! 0x87 \<noteq> 0))))
   \<and> (cls \<in> {rmmini, rmpro, rm} \<and> fst (exchange self (u32_le 0x01)) = Inr decrypted
      \<and> 0x8B < length decrypted
      \<and> decode (takeWhile (\<lambda>b. b \<noteq> 0) (drop 0x4C decrypted)) = Inr s \<longrightarrow>
      (\<exists>r. fst (invoke cls Fetch_data self) = Inr (PDict r)
         \<and> map_of r ''name'' = Some (PStr s)
         \<and> map_of r ''is_locked'' = Some (PBool (decrypted ! 0x8B \<noteq> 0))))"
proof (intro conjI impI; elim conjE)
  assume "fst (call_send cls self 0x1 []) = Inr resp" "0x87 < length resp"
    "decode (takeWhile (\<lambda>b. b \<noteq> 0) (drop 0x48 resp)) = Inr s"
  then show "\<exists>r. fst (invoke cls Fetch_data self) = Inr (PDict r)
         \<and> map_of r ''name'' = Some (PStr s)
         \<and> map_of r ''is_locked'' = Some (PBool (resp ! 0x87 \<noteq> 0))"
    using fetch_data_fields [of cls self resp s] by (simp add: split0_def)
next
  assume legacy: "cls \<in> {rmmini, rmpro, rm}"
    and reply: "fst (exchange self (u32_le 0x01)) = Inr decrypted"
    and len: "0x8B < length decrypted"
    and name: "decode (takeWhile (\<lambda>b. b \<noteq> 0) (drop 0x4C decrypted)) = Inr s"
  from legacy have "call_send cls self 0x1 [] = rmmini_send self 0x1 []"
    by (auto simp: call_send_table)
  with reply rmmini_send_reply [of self "0x01" "[]"]
  have resp: "fst (call_send cls self 0x1 []) = Inr (drop 4 decrypted)"
    by simp
  from len have nth: "drop 4 decrypted ! 0x87 = decrypted ! 0x8B"
    by simp
  from len name
  have "\<exists>r. fst (invoke cls Fetch_data self) = Inr (PDict r)
         \<and> map_of r ''name'' = Some (PStr s)
         \<and> map_of r ''is_locked'' = Some (PBool (drop 4 decrypted ! 0x87 \<noteq> 0))"
    by (intro fetch_data_fields [OF resp]) (simp_all add: split0_def)
  then show "\<exists>r. fst (invoke cls Fetch_data self) = Inr (PDict r)
         \<and> map_of r ''name'' = Some (PStr s)
         \<and> map_of r ''is_locked'' = Some (PBool (decrypted ! 0x8B \<noteq> 0))"
    unfolding nth .
qed

text \<open>
  The claim as first stated puts the name at offset 0x44 and the lock byte at offset 0x83.
  On the buffer \<open>offsets_example\<close>, a reader at 0x44 and 0x83 would find the name \<open>A\<close>
  and a set lock byte when it counts from the start of the decrypted buffer, the name
  \<open>B\<close> and a set lock byte when it counts from the start of the logical payload;
  \<^verbatim>\<open>fetch_data\<close> returns the name \<open>C\<close> and \<^verbatim>\<open>is_locked = False\<close>.
\<close>

theorem legacy_status_offsets_counterexample:
  "fst (invoke rmmini Fetch_data (test_device offsets_example))
     = Inr (PDict [(''name'', PStr (code_points ''C'')), (''is_locked'', PBool False)])
   \<and> takeWhile (\<lambda>b. b \<noteq> 0) (drop 0x44 offsets_example) = ascii ''A''
   \<and> offsets_example ! 0x83 = 0x01
   \<and> takeWhile (\<lambda>b. b \<noteq> 0) (drop 0x44 (drop 0x04 offsets_example)) = ascii ''B''
   \<and> drop 0x04 offsets_example ! 0x83 = 0x01"
  by (simp add: dispatch rmmini_fetch_data_def legacy_test_device index_def split0_def
      offsets_example_def ascii_def code_points_def nth_append)

theorem legacy_status_offsets_witness:
  "(\<exists>r. fst (invoke rm Fetch_data (test_device offsets_example)) = Inr (PDict r)
         \<and> map_of r ''name'' = Some (PStr (code_points ''C''))
         \<and> map_of r ''is_locked'' = Some (PBool False))
   \<and> (\<exists>r. fst (invoke rmpro Fetch_data (test_device offsets_example)) = Inr (PDict r)
         \<and> map_of r ''name'' = Some (PStr (code_points ''C''))
         \<and> map_of r ''is_locked'' = Some (PBool False))"
proof -
  have len: "length offsets_example = 144"
    by (simp add: offsets_example_def)
  have name: "decode (takeWhile (\<lambda>b. b \<noteq> 0) (drop 0x4C offsets_example))
      = Inr (code_points ''C'')"
    by (simp add: offsets_example_def code_points_def)
  have name': "decode (takeWhile (\<lambda>b. b \<noteq> 0) (drop 0x48 (drop 4 offsets_example)))
      = Inr (code_points ''C'')"
    by (simp add: offsets_example_def code_points_def)
  have lock: "offsets_example ! 0x8B = 0" "drop 4 offsets_example ! 0x87 = 0"
    by (simp_all add: offsets_example_def nth_append)
  have reply: "fst (call_send rm (test_device offsets_example) 0x1 [])
      = Inr (drop 4 offsets_example)"
    by (simp add: legacy_test_device)
  have reply': "fst (exchange (test_device offsets_example) (u32_le 0x01))
      = Inr offsets_example"
    by simp
  show ?thesis
    using
      legacy_status_offsets [of rm "test_device offsets_example" "drop 4 offsets_example"
        "code_points ''C''"]
      legacy_status_offsets [of rmpro "test_device offsets_example" _ "code_points ''C''"
        offsets_example]
      name name' reply reply'
    by (simp add: len lock)
qed

subsection \<open>The capability table\<close>

lemmas flag_defs = LEARN_IR_CODE_def SEND_IR_CODE_def LEARN_RF_CODE_def SEND_RF_CODE_def
  CHECK_TEMPERATURE_def CHECK_HUMIDITY_def

lemmas method_defs = rmmini_fetch_data_def rmmini_send_data_def rmmini_enter_learning_def
  rmmini_check_data_def rmpro_fetch_data_def rmpro_sweep_frequency_def
  rmpro_check_frequency_def rmpro_find_rf_packet_def rmpro_cancel_sweep_frequency_def
  rmpro_check_sensors_def rm4mini_check_sensors_def rmpro_check_temperature_def
  rm4mini_check_temperature_def rm4mini_check_humidity_def

lemma features_values:
  "rmmini_supported_features = 3"
  "rmpro_supported_features = 31"
  "rm4mini_supported_features = 51"
  "rm4pro_supported_features = 63"
  by (simp_all add: rmmini_supported_features_def rmpro_supported_features_def
      rm4mini_supported_features_def rm4pro_supported_features_def flag_defs)

lemma flags_in_values:
  "flags_in 3 = [LEARN_IR_CODE, SEND_IR_CODE]"
  "flags_in 31 = [LEARN_IR_CODE, SEND_IR_CODE, LEARN_RF_CODE, SEND_RF_CODE, CHECK_TEMPERATURE]"
  "flags_in 51 = [LEARN_IR_CODE, SEND_IR_CODE, CHECK_TEMPERATURE, CHECK_HUMIDITY]"
  "flags_in 63 = [LEARN_IR_CODE, SEND_IR_CODE, LEARN_RF_CODE, SEND_RF_CODE,
     CHECK_TEMPERATURE, CHECK_HUMIDITY]"
  by (simp_all add: flags_in_def flag_defs)

lemma alias_rm: "invoke rm c self = invoke rmpro c self"
  by (cases c) (simp_all add: dispatch method_defs call_send_table)

lemma alias_rm4: "invoke rm4 c self = invoke rm4pro c self"
  by (cases c) (simp_all add: dispatch method_defs call_send_table)

lemma u32_le_numerals:
  "u32_le 0x01 = [0x01, 0, 0, 0]"
  "u32_le 0x02 = [0x02, 0, 0, 0]"
  "u32_le 0x03 = [0x03, 0, 0, 0]"
  "u32_le 0x04 = [0x04, 0, 0, 0]"
  "u32_le 0x19 = [0x19, 0, 0, 0]"
  "u32_le 0x1A = [0x1A, 0, 0, 0]"
  "u32_le 0x1B = [0x1B, 0, 0, 0]"
  "u32_le 0x1E = [0x1E, 0, 0, 0]"
  "u32_le 0x24 = [0x24, 0, 0, 0]"
  by (simp_all add: u32_le_def drop_bit_eq_div)

lemma living_room_length: "length living_room_example = 140"
  by (simp add: living_room_example_def ascii_def)

lemma living_room_name:
  "decode (takeWhile (\<lambda>b. b \<noteq> 0) (drop 0x4C living_room_example))
     = Inr (code_points ''Living Room'')"
  by (simp add: living_room_example_def ascii_def code_points_def)

lemma living_room_lock: "living_room_example ! 0x8B = 0"
  by (simp add: living_room_example_def ascii_def nth_append)

lemma legacy_class_frame:
  "cls \<in> {rmmini, rmpro, rm} \<Longrightarrow>
   sent (snd (call_send cls self (uint w) data)) = sent self @ [(0x6A, u32_le w @ data)]"
  by (auto simp: call_send_table rmmini_send_frame)

lemma legacy_class_reply:
  "cls \<in> {rmmini, rmpro, rm} \<Longrightarrow> fst (exchange self (u32_le w @ data)) = Inr d \<Longrightarrow>
   fst (call_send cls self (uint w) data) = Inr (drop 4 d)"
  by (auto simp: call_send_table rmmini_send_reply)

lemma extended_class_frame:
  "cls \<in> {rmminib, rm4mini, rm4pro, rm4} \<Longrightarrow> length data + 4 < 2 ^ 16 \<Longrightarrow>
   sent (snd (call_send cls self (uint w) data))
     = sent self @ [(0x6A, u16_le (length data + 4) @ u32_le w @ data)]"
  by (auto simp: call_send_table rmminib_send_frame)

lemma extended_class_reply:
  "cls \<in> {rmminib, rm4mini, rm4pro, rm4} \<Longrightarrow> length data + 4 < 2 ^ 16 \<Longrightarrow>
   fst (exchange self (u16_le (length data + 4) @ u32_le w @ data)) = Inr d \<Longrightarrow>
   2 \<le> length d \<Longrightarrow>
   fst (call_send cls self (uint w) data)
     = Inr (map ((!) d) [6 ..< min (u16_at0 d + 2) (length d)])"
  by (auto simp: call_send_table rmminib_send_reply)

lemma mini_no_sensors:
  "cls \<in> {rmmini, rmminib} \<Longrightarrow> invoke cls Check_sensors self = (Inl AttributeError, self)"
  by (auto simp: dispatch)

lemma mini_fetch_data:
  "cls \<in> {rmmini, rmminib, rm4mini} \<Longrightarrow> fst (call_send cls self 0x1 []) = Inr resp \<Longrightarrow>
   0x87 < length resp \<Longrightarrow> decode (takeWhile (\<lambda>b. b \<noteq> 0) (drop 0x48 resp)) = Inr s \<Longrightarrow>
   fst (invoke cls Fetch_data self) =
     Inr (PDict [(''name'', PStr s), (''is_locked'', PBool (resp ! 0x87 \<noteq> 0))])"
  by (auto simp: dispatch rmmini_fetch_data_def index_def unat_pos_iff split0_def)

lemma class_features:
  "cls \<in> {rmmini, rmminib} \<Longrightarrow> invoke cls Supported_features self = (Inr (PFeatures 3), self)"
  "cls \<in> {rmpro, rm} \<Longrightarrow> invoke cls Supported_features self = (Inr (PFeatures 31), self)"
  "invoke rm4mini Supported_features self = (Inr (PFeatures 51), self)"
  "cls \<in> {rm4pro, rm4} \<Longrightarrow> invoke cls Supported_features self = (Inr (PFeatures 63), self)"
  by (auto simp: dispatch features_values)



subsection \<open>Opcodes\<close>

lemma sent_legacy:
  "0 \<le> c \<Longrightarrow> c < 2 ^ 32 \<Longrightarrow>
   sent (snd (rmmini_send self c data)) = sent self @ [(0x6A, le_bytes 4 (nat c) @ data)]"
  by (simp add: rmmini_send_int)

lemma sent_extended:
  "0 \<le> c \<Longrightarrow> c < 2 ^ 32 \<Longrightarrow> length data + 4 < 2 ^ 16 \<Longrightarrow>
   sent (snd (rmminib_send self c data))
     = sent self @ [(0x6A, u16_le (length data + 4) @ le_bytes 4 (nat c) @ data)]"
  by (simp add: rmminib_send_int)

lemma opcodes_legacy:
  assumes "cls \<in> {rmmini, rmpro, rm}" and "resolve cls (attr_of c) \<noteq> None"
    and "request_of cls c = Some (opcode, payload)"
  shows "sent (snd (invoke cls c self)) = sent self @ [(0x6A, framed cls opcode payload)]"
  using assms
  by (cases c)
    (auto simp: dispatch method_defs call_send_table sent_legacy le_bytes_4 framed_def
      u32_le_numerals)

lemma opcodes_extended:
  assumes "cls \<in> {rmminib, rm4mini, rm4pro, rm4}" and "resolve cls (attr_of c) \<noteq> None"
    and "request_of cls c = Some (opcode, payload)" and "length payload + 4 < 2 ^ 16"
  shows "sent (snd (invoke cls c self)) = sent self @ [(0x6A, framed cls opcode payload)]"
  using assms
  by (cases c)
    (auto simp: dispatch method_defs call_send_table sent_extended le_bytes_4 framed_def
      u32_le_numerals)



subsection \<open>Operations a class does not have\<close>

lemma unflagged_is_undefined:
  assumes "flag_of c = Some f"
    and "fst (invoke cls Supported_features self) = Inr (PFeatures ft)"
    and "ft AND f = 0"
  shows "invoke cls c self = (Inl AttributeError, self)"
  using assms
  by (cases cls; cases c) (auto simp: dispatch features_values flag_defs)

lemma bind_exn_assoc:
  "bind_exn (bind_exn m f) g = bind_exn m (\<lambda>x. bind_exn (f x) g)"
  by (cases m) simp_all

lemma send_data_ungated:
  "invoke cls (Send_data code) self
     = then_pure (call_send cls self 0x2 code) (\<lambda>_. Inr PNone)"
  by (cases cls) (simp_all add: dispatch rmmini_send_data_def then_pure_def bind_exn_assoc)

lemma send_data_defined: "resolve cls (attr_of (Send_data code)) \<noteq> None"
  by (cases cls) (simp_all add: resolve_def mro_table)

lemma send_data_sent:
  assumes "cls \<in> {rmmini, rmpro, rm} \<or> length code + 4 < 2 ^ 16"
  shows "sent (snd (invoke cls (Send_data code) self))
           = sent self @ [(0x6A, framed cls 0x02 code)]"
proof (cases "cls \<in> {rmmini, rmpro, rm}")
  case True
  then show ?thesis
    using opcodes_legacy [of cls "Send_data code" "0x02" code self] send_data_defined [of cls code]
    by simp
next
  case False
  then have ext: "cls \<in> {rmminib, rm4mini, rm4pro, rm4}" by (cases cls) simp_all
  from False assms have "length code + 4 < 2 ^ 16" by blast
  with ext show ?thesis
    using opcodes_extended [of cls "Send_data code" "0x02" code self]
      send_data_defined [of cls code]
    by simp
qed

lemma send_data_overflow:
  assumes "cls \<in> {rmminib, rm4mini, rm4pro, rm4}" and "2 ^ 16 \<le> length code + 4"
  shows "invoke cls (Send_data code) self = (Inl StructError, self)"
  using assms rmminib_send_overflow [of code self 2]
  by (auto simp: send_data_ungated call_send_table)

text \<open>
  Claim C2, as amended. No method looks at the flags. For every class and every
  operation whose flag (\<open>flag_of\<close>) is missing from the value of \<^verbatim>\<open>supported_features\<close> on
  that class, no class of the resolution order defines the method: the call raises
  \<^verbatim>\<open>AttributeError\<close> and leaves the device as it was, so no frame is sent. This covers
  \<^verbatim>\<open>check_humidity\<close> wherever CHECK_HUMIDITY is missing. \<^verbatim>\<open>send_data\<close> is defined on every
  class and is not gated by any flag: for every code the class can frame, which is any
  code under legacy framing and a code of at most 65531 bytes under extended framing,
  it hands the transport the frame of opcode 0x02 with the code as payload, whether or
  not the class declares SEND_RF_CODE; a longer code under extended framing raises
  \<^verbatim>\<open>struct.error\<close> and sends nothing. On every class \<^verbatim>\<open>send_data\<close> is \<^verbatim>\<open>_send(0x2, code)\<close>
  followed by the result \<^verbatim>\<open>None\<close>.
\<close>

theorem unsupported_operations:
  "(flag_of c = Some f \<and> fst (invoke cls Supported_features self) = Inr (PFeatures ft)
      \<and> ft AND f = 0 \<longrightarrow>
      invoke cls c self = (Inl AttributeError, self))
   \<and> (cls \<in> {rmmini, rmpro, rm} \<or> length code + 4 < 2 ^ 16 \<longrightarrow>
      sent (snd (invoke cls (Send_data code) self))
        = sent self @ [(0x6A, framed cls 0x02 code)])
   \<and> (cls \<in> {rmminib, rm4mini, rm4pro, rm4} \<and> 2 ^ 16 \<le> length code + 4 \<longrightarrow>
      invoke cls (Send_data code) self = (Inl StructError, self))
   \<and> invoke cls (Send_data code) self
       = then_pure (call_send cls self 0x2 code) (\<lambda>_. Inr PNone)"
  using unflagged_is_undefined [of c f cls self ft] send_data_ungated [of cls code self]
    send_data_sent [of cls code self] send_data_overflow [of cls code self]
  by blast


text \<open>
  The claim as first stated has every operation outside the flags of a class rejected
  before any frame is sent. \<^verbatim>\<open>rmmini\<close> declares the value 3, without SEND_RF_CODE, and yet
  sends the frame of a radio-frequency code handed to \<^verbatim>\<open>send_data\<close> and returns \<^verbatim>\<open>None\<close>;
  and where a call is rejected, as \<^verbatim>\<open>check_humidity\<close> on \<^verbatim>\<open>rmmini\<close>, the exception is
  Python's \<^verbatim>\<open>AttributeError\<close>: the module defines no exception of its own.
\<close>

theorem unsupported_operations_counterexample:
  "invoke rmmini Supported_features (test_device []) = (Inr (PFeatures 3), test_device [])
   \<and> 3 AND SEND_RF_CODE = 0
   \<and> invoke rmmini (Send_data [0xB2, 0x01]) (test_device [0, 0, 0, 0])
       = (Inr PNone, (test_device [0, 0, 0, 0])\<lparr>sent := [(0x6A, [0x02, 0, 0, 0, 0xB2, 0x01])]\<rparr>)
   \<and> invoke rmmini Check_humidity (test_device []) = (Inl AttributeError, test_device [])"
  by (simp add: dispatch features_values flag_defs rmmini_send_data_def call_send_table
      rmmini_send_int le_bytes_4 then_pure_def)

theorem unsupported_operations_witness:
  "invoke rmmini Check_humidity (test_device []) = (Inl AttributeError, test_device [])
   \<and> invoke rmpro Check_humidity (test_device []) = (Inl AttributeError, test_device [])
   \<and> invoke rmminib Check_sensors (test_device []) = (Inl AttributeError, test_device [])
   \<and> invoke rm4mini Sweep_frequency (test_device []) = (Inl AttributeError, test_device [])
   \<and> sent (snd (invoke rmmini (Send_data [0xB2, 0x01]) (test_device [])))
       = [(0x6A, [0x02, 0, 0, 0, 0xB2, 0x01])]
   \<and> sent (snd (invoke rm4mini (Send_data [0xB2, 0x01]) (test_device [])))
       = [(0x6A, [0x06, 0, 0x02, 0, 0, 0, 0xB2, 0x01])]
   \<and> invoke rm4mini (Send_data (replicate 65532 0)) (test_device [])
       = (Inl StructError, test_device [])"
proof -
  have features:
    "fst (invoke rmmini Supported_features (test_device [])) = Inr (PFeatures 3)"
    "fst (invoke rmpro Supported_features (test_device [])) = Inr (PFeatures 31)"
    "fst (invoke rmminib Supported_features (test_device [])) = Inr (PFeatures 3)"
    "fst (invoke rm4mini Supported_features (test_device [])) = Inr (PFeatures 51)"
    by (simp_all add: dispatch features_values)
  have absent: "3 AND CHECK_HUMIDITY = 0" "31 AND CHECK_HUMIDITY = 0"
    "3 AND CHECK_TEMPERATURE = 0" "51 AND LEARN_RF_CODE = 0"
    by (simp_all add: flag_defs)
  show ?thesis
    using
      unsupported_operations [where c = Check_humidity and f = CHECK_HUMIDITY
        and cls = rmmini and self = "test_device []" and ft = 3, THEN conjunct1]
      unsupported_operations [where c = Check_humidity and f = CHECK_HUMIDITY
        and cls = rmpro and self = "test_device []" and ft = 31, THEN conjunct1]
      unsupported_operations [where c = Check_sensors and f = CHECK_TEMPERATURE
        and cls = rmminib and self = "test_device []" and ft = 3, THEN conjunct1]
      unsupported_operations [where c = Sweep_frequency and f = LEARN_RF_CODE
        and cls = rm4mini and self = "test_device []" and ft = 51, THEN conjunct1]
      unsupported_operations [where cls = rmmini and code = "[0xB2, 0x01]"
        and self = "test_device []", THEN conjunct2, THEN conjunct1]
      unsupported_operations [where cls = rm4mini and code = "[0xB2, 0x01]"
        and self = "test_device []", THEN conjunct2, THEN conjunct1]
      unsupported_operations [where cls = rm4mini and code = "replicate 65532 0"
        and self = "test_device []", THEN conjunct2, THEN conjunct2, THEN conjunct1]
      features absent
    by (simp add: framed_def u32_le_numerals u16_le_def)
qed

subsection \<open>Further facts about the status and the short responses\<close>

text \<open>
  The status of the pro classes. On \<^verbatim>\<open>rmpro\<close>, \<^verbatim>\<open>rm\<close>, \<^verbatim>\<open>rm4pro\<close> and \<^verbatim>\<open>rm4\<close> the method
  \<^verbatim>\<open>fetch_data\<close> is that of \<^verbatim>\<open>rmpro\<close>: for a logical payload of more than 0x87 bytes whose
  name decodes, it returns \<^verbatim>\<open>temperature\<close> \<open>= b0 + b1 / 10.0\<close> in Python's floats, \<^verbatim>\<open>name\<close>
  and \<^verbatim>\<open>is_locked\<close>, in this order. The divisor is 10 on \<^verbatim>\<open>rm4pro\<close> and \<^verbatim>\<open>rm4\<close> too, where
  \<^verbatim>\<open>check_sensors\<close> divides by 100. In the example the bytes \<open>(0x19, 0x02)\<close> give the
  double \<open>25.2\<close>.
\<close>

theorem pro_status_temperature:
  "cls \<in> {rmpro, rm, rm4pro, rm4} \<and> fst (call_send cls self 0x1 []) = Inr resp
     \<and> 0x87 < length resp
     \<and> decode (takeWhile (\<lambda>b. b \<noteq> 0) (drop 0x48 resp)) = Inr s \<longrightarrow>
   fst (invoke cls Fetch_data self) =
     Inr (PDict [(''temperature'',
                  PFloat (float_add (of_int (sint (resp ! 0)))
                            (float_div (of_int (sint (resp ! 1))) 10))),
                 (''name'', PStr s),
                 (''is_locked'', PBool (resp ! 0x87 \<noteq> 0))])"
  by (auto simp: dispatch rmpro_fetch_data_def unpack_bb_take index_def unat_pos_iff
      split0_def)

theorem pro_status_temperature_witness:
  "fst (invoke rm4pro Fetch_data
         (test_device ([0x8C, 0, 0, 0, 0, 0, 0x19, 0x02] @ drop 6 living_room_example)))
     = Inr (PDict [(''temperature'', PFloat (7093169413108531 / 281474976710656)),
                   (''name'', PStr (code_points ''Living Room'')),
                   (''is_locked'', PBool False)])"
proof -
  let ?resp = "[0x19, 0x02] @ drop 6 living_room_example"
  have reply: "fst (call_send rm4pro
      (test_device ([0x8C, 0, 0, 0, 0, 0, 0x19, 0x02] @ drop 6 living_room_example)) 0x1 [])
      = Inr ?resp"
    by (simp add: extended_test_device slice_def u16_at0_def living_room_length)
  have long: "0x87 < length ?resp"
    by (simp add: living_room_length)
  have name: "decode (takeWhile (\<lambda>b. b \<noteq> 0) (drop 0x48 ?resp))
      = Inr (code_points ''Living Room'')"
    using living_room_name by simp
  show ?thesis
    using pro_status_temperature [of rm4pro
        "test_device ([0x8C, 0, 0, 0, 0, 0, 0x19, 0x02] @ drop 6 living_room_example)"
        ?resp "code_points ''Living Room''"]
      reply long name
    by (simp add: living_room_lock living_room_length float_examples)
qed

text \<open>
  The status of the mini classes. On \<^verbatim>\<open>rmmini\<close>, \<^verbatim>\<open>rmminib\<close> and \<^verbatim>\<open>rm4mini\<close> the method
  \<^verbatim>\<open>fetch_data\<close> is that of \<^verbatim>\<open>rmmini\<close> and returns \<^verbatim>\<open>name\<close> and \<^verbatim>\<open>is_locked\<close> only: no
  temperature, on \<^verbatim>\<open>rm4mini\<close> either, whose flags hold CHECK_TEMPERATURE.
\<close>

theorem mini_status_fields:
  "cls \<in> {rmmini, rmminib, rm4mini} \<and> fst (call_send cls self 0x1 []) = Inr resp
     \<and> 0x87 < length resp
     \<and> decode (takeWhile (\<lambda>b. b \<noteq> 0) (drop 0x48 resp)) = Inr s \<longrightarrow>
   fst (invoke cls Fetch_data self) =
     Inr (PDict [(''name'', PStr s), (''is_locked'', PBool (resp ! 0x87 \<noteq> 0))])"
  by (auto simp: dispatch rmmini_fetch_data_def index_def unat_pos_iff split0_def)

theorem mini_status_fields_witness:
  "fst (invoke rm4mini Fetch_data (test_device (0x8C # 0 # living_room_example)))
     = Inr (PDict [(''name'', PStr (code_points ''Living Room'')),
                   (''is_locked'', PBool False)])
   \<and> fst (invoke rm4mini Supported_features (test_device [])) = Inr (PFeatures 51)
   \<and> 51 AND CHECK_TEMPERATURE \<noteq> 0"
proof -
  let ?resp = "drop 4 living_room_example"
  have reply: "fst (call_send rm4mini (test_device (0x8C # 0 # living_room_example)) 0x1 [])
      = Inr ?resp"
    by (simp add: extended_test_device slice_def u16_at0_def living_room_length)
  have long: "0x87 < length ?resp"
    by (simp add: living_room_length)
  have name: "decode (takeWhile (\<lambda>b. b \<noteq> 0) (drop 0x48 ?resp))
      = Inr (code_points ''Living Room'')"
    using living_room_name by simp
  have flags: "fst (invoke rm4mini Supported_features (test_device [])) = Inr (PFeatures 51)"
    "51 AND CHECK_TEMPERATURE \<noteq> 0"
    by (simp_all add: dispatch features_values flag_defs)
  show ?thesis
    using mini_status_fields [of rm4mini "test_device (0x8C # 0 # living_room_example)"
        ?resp "code_points ''Living Room''"]
      reply long name flags
    by (simp add: living_room_lock living_room_length)
qed

text \<open>
  The exceptions of the parsers on a logical payload that is too short:
  \<^verbatim>\<open>fetch_data\<close> of \<^verbatim>\<open>rmmini\<close> raises \<^verbatim>\<open>IndexError\<close> when the payload has at most 0x87 bytes
  and the name decodes; \<^verbatim>\<open>fetch_data\<close> of \<^verbatim>\<open>rmpro\<close> and both \<^verbatim>\<open>check_sensors\<close> raise
  \<^verbatim>\<open>struct.error\<close> on fewer than two bytes; \<^verbatim>\<open>check_sensors\<close> of \<^verbatim>\<open>rm4mini\<close> raises
  \<^verbatim>\<open>IndexError\<close> on two or three bytes; \<^verbatim>\<open>check_frequency\<close> raises \<^verbatim>\<open>IndexError\<close> on the
  empty payload.
\<close>

theorem short_payload_errors:
  "(cls \<in> {rmmini, rmminib, rm4mini} \<and> fst (call_send cls self 0x1 []) = Inr resp
      \<and> length resp \<le> 0x87
      \<and> decode (takeWhile (\<lambda>b. b \<noteq> 0) (drop 0x48 resp)) = Inr s \<longrightarrow>
      fst (invoke cls Fetch_data self) = Inl IndexError)
   \<and> (cls \<in> {rmpro, rm, rm4pro, rm4} \<and> fst (call_send cls self 0x1 []) = Inr resp
      \<and> length resp < 2 \<longrightarrow>
      fst (invoke cls Fetch_data self) = Inl StructError)
   \<and> (cls \<in> {rmpro, rm} \<and> fst (call_send cls self 0x1 []) = Inr resp
      \<and> length resp < 2 \<longrightarrow>
      fst (invoke cls Check_sensors self) = Inl StructError)
   \<and> (cls \<in> {rm4mini, rm4pro, rm4} \<and> fst (call_send cls self 0x24 []) = Inr resp
      \<and> length resp < 2 \<longrightarrow>
      fst (invoke cls Check_sensors self) = Inl StructError)
   \<and> (cls \<in> {rm4mini, rm4pro, rm4} \<and> fst (call_send cls self 0x24 []) = Inr resp
      \<and> 2 \<le> length resp \<and> length resp < 4 \<longrightarrow>
      fst (invoke cls Check_sensors self) = Inl IndexError)
   \<and> (cls \<in> {rmpro, rm4pro, rm, rm4} \<and> fst (call_send cls self 0x1A []) = Inr [] \<longrightarrow>
      fst (invoke cls Check_frequency self) = Inl IndexError)"
  by (auto simp: dispatch rmmini_fetch_data_def rmpro_fetch_data_def rmpro_check_sensors_def
      rm4mini_check_sensors_def rmpro_check_frequency_def unpack_bb_take index_def split0_def)

theorem short_payload_errors_witness:
  "fst (invoke rmmini Fetch_data (test_device [0, 0, 0, 0, 0x41])) = Inl IndexError
   \<and> fst (invoke rmpro Fetch_data (test_device [0, 0, 0, 0, 0x41])) = Inl StructError
   \<and> fst (invoke rmpro Check_sensors (test_device [0, 0, 0, 0, 0x19])) = Inl StructError
   \<and> fst (invoke rm4mini Check_sensors (test_device [0x05, 0, 0, 0, 0, 0, 0x19]))
       = Inl StructError
   \<and> fst (invoke rm4pro Check_sensors (test_device [0x07, 0, 0, 0, 0, 0, 0x19, 0x02, 0x3C]))
       = Inl IndexError
   \<and> fst (invoke rm4 Check_frequency (test_device [0x04, 0, 0, 0, 0, 0])) = Inl IndexError"
  using short_payload_errors [of rmmini "test_device [0, 0, 0, 0, 0x41]" "[0x41]" "[]"]
    short_payload_errors [of rmpro "test_device [0, 0, 0, 0, 0x41]" "[0x41]"]
    short_payload_errors [of rmpro "test_device [0, 0, 0, 0, 0x19]" "[0x19]"]
    short_payload_errors [of rm4mini "test_device [0x05, 0, 0, 0, 0, 0, 0x19]" "[0x19]"]
    short_payload_errors [of rm4pro "test_device [0x07, 0, 0, 0, 0, 0, 0x19, 0x02, 0x3C]"
      "[0x19, 0x02, 0x3C]"]
    short_payload_errors [of rm4 "test_device [0x04, 0, 0, 0, 0, 0]" "[]"]
  by (simp add: legacy_test_device extended_test_device slice_def u16_at0_def)

end
